theory Spec2Isabelle
  imports Main
begin

section \<open>Python values and exceptions\<close>

text \<open>
  The work-time ledger exists twice in the repository: \<^verbatim>\<open>src/arbeitszeit/main.py\<close> (pydantic
  models, ISO weeks) and \<^verbatim>\<open>src/vanilla.py\<close> (plain classes). Definitions without a prefix
  embed \<^verbatim>\<open>main.py\<close>; a definition named \<open>vanilla_...\<close> embeds the function of
  \<^verbatim>\<open>vanilla.py\<close> where its text differs. Functions whose text is the same in both files
  are embedded once.

  A raised exception is the \<open>Inl\<close> of a result \<open>error + 'a\<close>.
  \<open>ValidationError\<close> is pydantic's, raised by a model's constructor when a validator raises
  \<open>ValueError\<close>; \<open>SystemExit n\<close> is what \<^verbatim>\<open>exit(n)\<close> raises; \<open>AttributeError\<close> is what
  \<^verbatim>\<open>time.strftime\<close> raises in \<^verbatim>\<open>time_to_text\<close> when the value is a text and not a time.
\<close>

datatype error =
    AssertionError string
  | ValueError
  | TypeError
  | AttributeError
  | ValidationError
  | SystemExit nat

text \<open>
  \<^verbatim>\<open>datetime.time\<close>, naive (no time zone), as \<^verbatim>\<open>now()\<close> and \<^verbatim>\<open>strptime\<close> produce it, and
  \<^verbatim>\<open>datetime.date\<close>. \<^verbatim>\<open>strptime\<close> returns a \<^verbatim>\<open>datetime\<close> at midnight where a date is meant
  (\<^verbatim>\<open>text_to_date\<close>); pydantic stores its date, \<^verbatim>\<open>vanilla.py\<close> keeps it as it is; the model
  keeps year, month and day.
\<close>

record time =
  hour :: nat
  minute :: nat
  second :: nat
  microsecond :: nat

record date =
  year :: nat
  month :: nat
  day :: nat

text \<open>
  \<^verbatim>\<open>datetime.timedelta\<close> is normalised to days, seconds in \<open>[0, 86400)\<close> and microseconds in
  \<open>[0, 10^6)\<close>; the model holds the total number of microseconds and reads the attributes
  \<^verbatim>\<open>.days\<close> and \<^verbatim>\<open>.seconds\<close> off it. (The limit of 999999999 days, beyond which Python raises
  \<^verbatim>\<open>OverflowError\<close>, is not modelled.)
\<close>

type_synonym timedelta = int

definition timedelta :: "int \<Rightarrow> int \<Rightarrow> timedelta" where
  \<comment> \<open>\<^verbatim>\<open>dt.timedelta(hours=h, minutes=m)\<close>\<close>
  "timedelta h m = (h * 3600 + m * 60) * 1000000"

definition td_days :: "timedelta \<Rightarrow> int" where
  "td_days td = td div 86400000000"

definition td_seconds :: "timedelta \<Rightarrow> int" where
  "td_seconds td = (td mod 86400000000) div 1000000"

text \<open>
  The values a name of the program can hold where the program itself does not fix the type:
  a \<^verbatim>\<open>str\<close>, a \<^verbatim>\<open>datetime.time\<close>, or a module-level function (by its name).
\<close>

datatype pyval = Str string | Time time | Func string

text \<open>Comparison of naive times: Python compares (hour, minute, second, microsecond).\<close>

definition time_less :: "time \<Rightarrow> time \<Rightarrow> bool" where
  "time_less a b =
     (if hour a = hour b then
        (if minute a = minute b then
           (if second a = second b then microsecond a < microsecond b
            else second a < second b)
         else minute a < minute b)
      else hour a < hour b)"

definition time_le :: "time \<Rightarrow> time \<Rightarrow> bool" where
  "time_le a b = (a = b \<or> time_less a b)"

section \<open>Strings\<close>

definition digit_char :: "nat \<Rightarrow> char" where
  "digit_char n = char_of (48 + n)"

fun str_nat :: "nat \<Rightarrow> string" where
  \<comment> \<open>\<^verbatim>\<open>str(n)\<close> of a non-negative int\<close>
  "str_nat n = (if n < 10 then [digit_char n] else str_nat (n div 10) @ [digit_char (n mod 10)])"

definition zfill :: "nat \<Rightarrow> nat \<Rightarrow> string" where
  \<comment> \<open>\<^verbatim>\<open>f"{n:0w}"\<close>: decimal, padded with zeros on the left to at least \<open>w\<close> characters\<close>
  "zfill w n = replicate (w - length (str_nat n)) (CHR ''0'') @ str_nat n"

definition is_digit :: "char \<Rightarrow> bool" where
  "is_digit c = (48 \<le> (of_char c :: nat) \<and> (of_char c :: nat) \<le> 57)"

definition int_of_digits :: "string \<Rightarrow> nat" where
  \<comment> \<open>\<^verbatim>\<open>int(s)\<close> of a string of decimal digits\<close>
  "int_of_digits s = foldl (\<lambda>n c. 10 * n + (of_char c - 48)) 0 s"

fun split_on :: "char \<Rightarrow> string \<Rightarrow> string list" where
  \<comment> \<open>\<^verbatim>\<open>s.split(c)\<close>: cuts at every \<open>c\<close>; empty pieces are kept\<close>
  "split_on c [] = [[]]"
| "split_on c (x # xs) =
     (if x = c then [] # split_on c xs
      else (case split_on c xs of p # ps \<Rightarrow> (x # p) # ps | [] \<Rightarrow> [[x]]))"

fun join :: "string \<Rightarrow> string list \<Rightarrow> string" where
  \<comment> \<open>\<^verbatim>\<open>sep.join(xs)\<close>\<close>
  "join sep [] = []"
| "join sep [x] = x"
| "join sep (x # y # ys) = x @ sep @ join sep (y # ys)"

fun index :: "'a list \<Rightarrow> 'a \<Rightarrow> nat" where
  \<comment> \<open>\<^verbatim>\<open>xs.index(x)\<close> for an \<open>x\<close> that occurs in \<open>xs\<close>: the position of its first occurrence\<close>
  "index [] x = 0"
| "index (y # ys) x = (if y = x then 0 else Suc (index ys x))"

section \<open>Regular expressions: \<^verbatim>\<open>re.match\<close>\<close>

text \<open>
  The patterns of the program are kept as the strings the source builds. \<open>compile\<close> reads a
  pattern the way Python's \<^verbatim>\<open>re\<close> does, for the operators these patterns use: a character
  class \<^verbatim>\<open>[...]\<close> of single characters and ranges, an exact repetition \<^verbatim>\<open>{n}\<close> of the item
  before it, alternation \<^verbatim>\<open>|\<close> (which binds weaker than concatenation) and a group
  \<^verbatim>\<open>(...)\<close>. A \<^verbatim>\<open>{\<close> that does not start \<^verbatim>\<open>{digits}\<close> is an ordinary character, as is every
  other character.
\<close>

datatype regex =
    Eps
  | Lit char
  | Class "(char \<times> char) list"
  | Cat regex regex
  | Alt regex regex
  | Rep nat regex

datatype token = TChar char | TClass "(char \<times> char) list" | TRep nat | TBar | TOpen | TClose

fun class_items :: "string \<Rightarrow> (char \<times> char) list" where
  \<comment> \<open>the body of a class: \<^verbatim>\<open>a-b\<close> is a range, any other character stands for itself\<close>
  "class_items (a # m # b # cs) =
     (if m = CHR ''-'' then (a, b) # class_items cs else (a, a) # class_items (m # b # cs))"
| "class_items (a # cs) = (a, a) # class_items cs"
| "class_items [] = []"

definition rep_count :: "string \<Rightarrow> (nat \<times> nat) option" where
  \<comment> \<open>after a \<^verbatim>\<open>{\<close>: the count of \<^verbatim>\<open>digits}\<close> and the number of characters it takes\<close>
  "rep_count cs =
     (let ds = takeWhile is_digit cs; rest = dropWhile is_digit cs
      in if ds \<noteq> [] \<and> take 1 rest = ''}'' then Some (int_of_digits ds, length ds + 1) else None)"

datatype lexmode = Normal | InClass string | Skip nat

fun lex :: "lexmode \<Rightarrow> string \<Rightarrow> token list" where
  "lex m [] = []"
| "lex (Skip k) (c # cs) = (if k \<le> 1 then lex Normal cs else lex (Skip (k - 1)) cs)"
| "lex (InClass acc) (c # cs) =
     (if c = CHR '']'' then TClass (class_items acc) # lex Normal cs
      else lex (InClass (acc @ [c])) cs)"
| "lex Normal (c # cs) =
     (if c = CHR ''['' then lex (InClass []) cs
      else if c = CHR ''|'' then TBar # lex Normal cs
      else if c = CHR ''('' then TOpen # lex Normal cs
      else if c = CHR '')'' then TClose # lex Normal cs
      else if c = CHR ''{'' then
        (case rep_count cs of
           Some (n, k) \<Rightarrow> TRep n # lex (Skip k) cs
         | None \<Rightarrow> TChar c # lex Normal cs)
      else TChar c # lex Normal cs)"

definition branch :: "regex list \<Rightarrow> regex" where
  \<comment> \<open>the items of one alternative, in sequence\<close>
  "branch items = foldr Cat items Eps"

definition close_group :: "regex list \<times> regex list \<Rightarrow> regex" where
  \<comment> \<open>the finished alternatives and the items of the last one\<close>
  "close_group f = foldr Alt (fst f) (branch (snd f))"

fun parse_tokens :: "(regex list \<times> regex list) list \<Rightarrow> token list \<Rightarrow> regex" where
  "parse_tokens [] ts = Eps"
| "parse_tokens [f] [] = close_group f"
| "parse_tokens (f # g # st) [] = parse_tokens ((fst g, snd g @ [close_group f]) # st) []"
| "parse_tokens (f # st) (TChar c # ts) = parse_tokens ((fst f, snd f @ [Lit c]) # st) ts"
| "parse_tokens (f # st) (TClass rs # ts) = parse_tokens ((fst f, snd f @ [Class rs]) # st) ts"
| "parse_tokens (f # st) (TRep n # ts) =
     (if snd f = [] then parse_tokens (f # st) ts
      else parse_tokens ((fst f, butlast (snd f) @ [Rep n (last (snd f))]) # st) ts)"
| "parse_tokens (f # st) (TBar # ts) = parse_tokens ((fst f @ [branch (snd f)], []) # st) ts"
| "parse_tokens (f # st) (TOpen # ts) = parse_tokens (([], []) # f # st) ts"
| "parse_tokens [f] (TClose # ts) = parse_tokens [f] ts"
| "parse_tokens (f # g # st) (TClose # ts) =
     parse_tokens ((fst g, snd g @ [close_group f]) # st) ts"

definition compile :: "string \<Rightarrow> regex" where
  "compile pattern = parse_tokens [([], [])] (lex Normal pattern)"

definition in_class :: "(char \<times> char) list \<Rightarrow> char \<Rightarrow> bool" where
  "in_class rs c =
     list_ex (\<lambda>r. (of_char (fst r) :: nat) \<le> of_char c \<and> (of_char c :: nat) \<le> of_char (snd r)) rs"

text \<open>
  \<open>matches r s\<close>: what is left of \<open>s\<close> after each way \<open>r\<close> matches a prefix of it, in the order
  the backtracking matcher tries them (the left alternative first).
\<close>

fun matches :: "regex \<Rightarrow> string \<Rightarrow> string list" where
  "matches Eps s = [s]"
| "matches (Lit c) s = (case s of [] \<Rightarrow> [] | x # xs \<Rightarrow> if x = c then [xs] else [])"
| "matches (Class rs) s = (case s of [] \<Rightarrow> [] | x # xs \<Rightarrow> if in_class rs x then [xs] else [])"
| "matches (Cat a b) s = concat (map (\<lambda>t. matches b t) (matches a s))"
| "matches (Alt a b) s = matches a s @ matches b s"
| "matches (Rep n a) s = ((\<lambda>ss. concat (map (\<lambda>t. matches a t) ss)) ^^ n) [s]"

definition re_match :: "string \<Rightarrow> pyval \<Rightarrow> error + bool" where
  \<comment> \<open>the truth value of \<^verbatim>\<open>re.match(pattern, x)\<close>: a match of a prefix of \<open>x\<close>;
      \<^verbatim>\<open>TypeError\<close> when \<open>x\<close> is not a string\<close>
  "re_match pattern x =
     (case x of
        Str s \<Rightarrow> Inr (matches (compile pattern) s \<noteq> [])
      | Time t \<Rightarrow> Inl TypeError
      | Func f \<Rightarrow> Inl TypeError)"

section \<open>Constants\<close>

definition NONE_TIME :: string where
  "NONE_TIME = ''--:--''"

definition DATE_REGEX :: string where
  \<comment> \<open>\<^verbatim>\<open>main.py\<close>: day name and date in one pattern\<close>
  "DATE_REGEX = ''[A-z ]{3} [0-9]{4}-[0-9]{2}-[0-9]{2}''"

definition TIME_REGEX :: string where
  \<comment> \<open>\<^verbatim>\<open>main.py\<close> line 29: an ordinary string literal, not an f-string, so the pattern holds
      the eleven characters \<^verbatim>\<open>{NONE_TIME}\<close> themselves\<close>
  "TIME_REGEX = ''[0-9]{2}:[0-9]{2}|{NONE_TIME}''"

definition REGEX_DATE :: string where
  "REGEX_DATE = ''[0-9]{4}-[0-9]{2}-[0-9]{2}''"

definition REGEX_DAY :: string where
  "REGEX_DAY = ''[A-z ]{3}''"

definition REGEX_TIME :: string where
  \<comment> \<open>\<^verbatim>\<open>vanilla.py\<close> line 24\<close>
  "REGEX_TIME = ''('' @ join ''|'' [''[0-9]{2}:[0-9]{2}'', NONE_TIME] @ '')''"

definition start_global :: pyval where
  \<comment> \<open>what the name \<^verbatim>\<open>start\<close> means at module level: the function \<^verbatim>\<open>start\<close>
      (\<^verbatim>\<open>main.py\<close> line 365, \<^verbatim>\<open>vanilla.py\<close> line 248)\<close>
  "start_global = Func ''start''"

section \<open>The calendar of \<^verbatim>\<open>datetime\<close>\<close>

definition is_leap :: "nat \<Rightarrow> bool" where
  "is_leap y = (y mod 4 = 0 \<and> (if y mod 100 = 0 then y mod 400 = 0 else True))"

definition days_in_month :: "nat \<Rightarrow> nat \<Rightarrow> nat" where
  "days_in_month y m =
     (if m = 2 \<and> is_leap y then 29
      else [31, 28, 31, 30, 31, 30, 31, 31, 30, 31, 30, 31] ! (m - 1))"

definition days_before_year :: "nat \<Rightarrow> int" where
  "days_before_year y =
     (let y1 = int y - 1 in y1 * 365 + y1 div 4 - y1 div 100 + y1 div 400)"

definition days_before_month :: "nat \<Rightarrow> nat \<Rightarrow> int" where
  "days_before_month y m =
     int (sum_list (take (m - 1) [31, 28, 31, 30, 31, 30, 31, 31, 30, 31, 30, 31]))
       + (if m > 2 \<and> is_leap y then 1 else 0)"

definition ymd2ord :: "nat \<Rightarrow> nat \<Rightarrow> nat \<Rightarrow> int" where
  "ymd2ord y m d = days_before_year y + days_before_month y m + int d"

definition toordinal :: "date \<Rightarrow> int" where
  "toordinal d = ymd2ord (year d) (month d) (day d)"

definition valid_date :: "nat \<Rightarrow> nat \<Rightarrow> nat \<Rightarrow> bool" where
  \<comment> \<open>what the constructors of \<^verbatim>\<open>date\<close> and \<^verbatim>\<open>datetime\<close> accept\<close>
  "valid_date y m d =
     (1 \<le> y \<and> y \<le> 9999 \<and> 1 \<le> m \<and> m \<le> 12 \<and> 1 \<le> d \<and> d \<le> days_in_month y m)"

definition weekday :: "date \<Rightarrow> nat" where
  \<comment> \<open>Monday is 0\<close>
  "weekday d = nat ((toordinal d + 6) mod 7)"

definition isoweek1monday :: "nat \<Rightarrow> int" where
  "isoweek1monday y =
     (let firstday = ymd2ord y 1 1;
          firstweekday = (firstday + 6) mod 7;
          week1monday = firstday - firstweekday
      in if firstweekday > 3 then week1monday + 7 else week1monday)"

definition isocalendar :: "date \<Rightarrow> nat \<times> nat \<times> nat" where
  "isocalendar d =
     (let y = year d;
          today = toordinal d;
          week = (today - isoweek1monday y) div 7;
          wd = (today - isoweek1monday y) mod 7
      in if week < 0 then
           (y - 1, nat ((today - isoweek1monday (y - 1)) div 7 + 1),
            nat ((today - isoweek1monday (y - 1)) mod 7 + 1))
         else if week \<ge> 52 \<and> today \<ge> isoweek1monday (y + 1) then (y + 1, 1, nat (wd + 1))
         else (y, nat (week + 1), nat (wd + 1)))"

section \<open>Utilities: texts of dates, times and durations\<close>

text \<open>
  \<^verbatim>\<open>strptime\<close> turns the format into one regular expression, takes the first match of a
  prefix of the text and raises \<^verbatim>\<open>ValueError\<close> when there is none, when text remains after
  it, or when the numbers are not a date. The groups of \<^verbatim>\<open>%H:%M\<close> and \<^verbatim>\<open>%Y-%m-%d\<close> are the
  pieces between the separators.
\<close>

definition strptime_HM :: "pyval \<Rightarrow> error + time" where
  \<comment> \<open>\<^verbatim>\<open>dt.datetime.strptime(text, "%H:%M").time()\<close>\<close>
  "strptime_HM x =
     (case x of
        Str s \<Rightarrow>
          (case matches (compile ''(2[0-3]|[0-1][0-9]|[0-9]):([0-5][0-9]|[0-9])'') s of
             [] \<Rightarrow> Inl ValueError
           | rest # _ \<Rightarrow>
               if rest \<noteq> [] then Inl ValueError
               else (case split_on (CHR '':'') s of
                       [h, m] \<Rightarrow>
                         Inr \<lparr>hour = int_of_digits h, minute = int_of_digits m,
                              second = 0, microsecond = 0\<rparr>
                     | _ \<Rightarrow> Inl ValueError))
      | Time t \<Rightarrow> Inl TypeError
      | Func f \<Rightarrow> Inl TypeError)"

definition strptime_Ymd :: "string \<Rightarrow> error + date" where
  \<comment> \<open>\<^verbatim>\<open>dt.datetime.strptime(text, "%Y-%m-%d")\<close>\<close>
  "strptime_Ymd s =
     (case matches (compile
         ''([0-9][0-9][0-9][0-9])-(1[0-2]|0[1-9]|[1-9])-(3[0-1]|[1-2][0-9]|0[1-9]|[1-9]| [1-9])'') s of
        [] \<Rightarrow> Inl ValueError
      | rest # _ \<Rightarrow>
          if rest \<noteq> [] then Inl ValueError
          else (case split_on (CHR ''-'') s of
                  [y, m, d] \<Rightarrow>
                    if valid_date (int_of_digits y) (int_of_digits m) (int_of_digits d)
                    then Inr \<lparr>year = int_of_digits y, month = int_of_digits m,
                              day = int_of_digits d\<rparr>
                    else Inl ValueError
                | _ \<Rightarrow> Inl ValueError))"

definition is_time :: "pyval \<Rightarrow> error + bool" where
  "is_time x = re_match TIME_REGEX x"

definition is_record :: "pyval \<Rightarrow> error + bool" where
  \<comment> \<open>\<^verbatim>\<open>re.match(f"{DATE_REGEX} {TIME_REGEX} {TIME_REGEX}", text)\<close>: the three patterns are
      pasted into one string, which is then read as one pattern\<close>
  "is_record x = re_match (DATE_REGEX @ '' '' @ TIME_REGEX @ '' '' @ TIME_REGEX) x"

definition vanilla_is_time :: "pyval \<Rightarrow> error + bool" where
  "vanilla_is_time x = re_match REGEX_TIME x"

definition vanilla_is_record :: "pyval \<Rightarrow> error + bool" where
  "vanilla_is_record x = re_match (join '' '' [REGEX_DAY, REGEX_DATE, REGEX_TIME, REGEX_TIME]) x"

definition text_to_date :: "string \<Rightarrow> error + date" where
  "text_to_date s = strptime_Ymd s"

definition day_name :: "nat \<Rightarrow> string" where
  \<comment> \<open>\<^verbatim>\<open>%a\<close> in the C locale\<close>
  "day_name n = [''Mon'', ''Tue'', ''Wed'', ''Thu'', ''Fri'', ''Sat'', ''Sun''] ! n"

definition date_to_text :: "date \<Rightarrow> string" where
  \<comment> \<open>\<^verbatim>\<open>date.strftime("%a %Y-%m-%d")\<close>; \<^verbatim>\<open>%Y\<close> as four digits (years from 1000 on)\<close>
  "date_to_text d =
     day_name (weekday d) @ '' '' @ zfill 4 (year d) @ ''-'' @ zfill 2 (month d) @ ''-''
       @ zfill 2 (day d)"

definition text_to_time :: "pyval \<Rightarrow> error + time option" where
  "text_to_time x =
     (if x = Str NONE_TIME then Inr None
      else (case strptime_HM x of Inl e \<Rightarrow> Inl e | Inr t \<Rightarrow> Inr (Some t)))"

definition time_to_text :: "time option \<Rightarrow> string" where
  "time_to_text t =
     (case t of None \<Rightarrow> NONE_TIME | Some x \<Rightarrow> zfill 2 (hour x) @ '':'' @ zfill 2 (minute x))"

definition timedelta_to_text :: "timedelta option \<Rightarrow> string" where
  "timedelta_to_text t =
     (case t of
        None \<Rightarrow> NONE_TIME
      | Some td \<Rightarrow>
          (let hours = td_seconds td div 3600;
               minutes = (td_seconds td div 60) mod 60
           in zfill 2 (nat hours) @ '':'' @ zfill 2 (nat minutes)))"

definition signed_timedelta_to_text :: "timedelta option \<Rightarrow> string" where
  "signed_timedelta_to_text t =
     (case t of
        None \<Rightarrow> NONE_TIME
      | Some td0 \<Rightarrow>
          (let td = (if td_days td0 < 0 then 0 - td0 else td0);
               sign = (if td_days td0 < 0 then ''-'' else ''+'');
               hours = td_seconds td div 3600;
               minutes = (td_seconds td div 60) mod 60
           in sign @ zfill 2 (nat hours) @ '':'' @ zfill 2 (nat minutes)))"

definition text_to_timedelta :: "string \<Rightarrow> error + timedelta option" where
  "text_to_timedelta s =
     (if s = NONE_TIME then Inr None
      else (case strptime_HM (Str s) of
              Inl e \<Rightarrow> Inl e
            | Inr t \<Rightarrow> Inr (Some (timedelta (int (hour t)) (int (minute t))))))"

definition sum_timedeltas :: "timedelta list \<Rightarrow> timedelta" where
  \<comment> \<open>\<^verbatim>\<open>sum(timedeltas, dt.timedelta())\<close>\<close>
  "sum_timedeltas tds = foldl (+) 0 tds"

section \<open>Record\<close>

text \<open>
  The attributes \<^verbatim>\<open>day\<close>, \<^verbatim>\<open>start\<close> and \<^verbatim>\<open>end\<close> (\<^verbatim>\<open>stop\<close> in \<^verbatim>\<open>vanilla.py\<close>), typed as the
  source annotates them: a date and two optional times.
\<close>

record Record =
  rec_day :: date
  rec_start :: "time option"
  rec_end :: "time option"

definition check_either_start_or_end :: "Record \<Rightarrow> error + Record" where
  "check_either_start_or_end r =
     (if (rec_start r, rec_end r) = (None, None) then Inl ValueError else Inr r)"

definition check_start_before_end :: "Record \<Rightarrow> error + Record" where
  "check_start_before_end r =
     (case (rec_start r, rec_end r) of
        (Some s, Some e) \<Rightarrow> if time_less e s then Inl ValueError else Inr r
      | _ \<Rightarrow> Inr r)"

definition Record_init :: "date \<Rightarrow> time option \<Rightarrow> time option \<Rightarrow> error + Record" where
  \<comment> \<open>\<^verbatim>\<open>Record(day=d, start=s, end=e)\<close> of \<^verbatim>\<open>main.py\<close>: pydantic runs the two validators in
      the order of their definition and raises \<^verbatim>\<open>ValidationError\<close> when one raises
      \<^verbatim>\<open>ValueError\<close>. A call that leaves \<^verbatim>\<open>day\<close> out passes the value of \<^verbatim>\<open>today()\<close>.\<close>
  "Record_init d s e =
     (case check_either_start_or_end \<lparr>rec_day = d, rec_start = s, rec_end = e\<rparr> of
        Inl err \<Rightarrow> Inl ValidationError
      | Inr r \<Rightarrow>
          (case check_start_before_end r of
             Inl err \<Rightarrow> Inl ValidationError
           | Inr r' \<Rightarrow> Inr r'))"

definition vanilla_Record_init :: "date \<Rightarrow> time option \<Rightarrow> time option \<Rightarrow> error + Record" where
  \<comment> \<open>\<^verbatim>\<open>Record.__init__\<close> of \<^verbatim>\<open>vanilla.py\<close>\<close>
  "vanilla_Record_init d s e =
     (if (s, e) = (None, None) then Inl (AssertionError ''Either start or stop must be defined!'')
      else (case (s, e) of
              (Some s', Some e') \<Rightarrow>
                if time_le s' e' then Inr \<lparr>rec_day = d, rec_start = s, rec_end = e\<rparr>
                else Inl (AssertionError ''Start must come before stop!'')
            | _ \<Rightarrow> Inr \<lparr>rec_day = d, rec_start = s, rec_end = e\<rparr>))"

definition from_text :: "string \<Rightarrow> error + Record" where
  "from_text text' =
     (case is_record (Str text') of
        Inl err \<Rightarrow> Inl err
      | Inr ok \<Rightarrow>
          if \<not> ok then Inl (AssertionError [])
          else (case split_on (CHR '' '') (drop 4 text') of
                  [d, s, e] \<Rightarrow>
                    (case text_to_date d of
                       Inl err \<Rightarrow> Inl err
                     | Inr d' \<Rightarrow>
                         (case text_to_time (Str s) of
                            Inl err \<Rightarrow> Inl err
                          | Inr s' \<Rightarrow>
                              (case text_to_time (Str e) of
                                 Inl err \<Rightarrow> Inl err
                               | Inr e' \<Rightarrow> Record_init d' s' e')))
                | _ \<Rightarrow> Inl ValueError))"

definition vanilla_from_text :: "string \<Rightarrow> error + Record" where
  "vanilla_from_text text' =
     (case vanilla_is_record (Str text') of
        Inl err \<Rightarrow> Inl err
      | Inr ok \<Rightarrow>
          if \<not> ok then Inl (AssertionError [])
          else (case split_on (CHR '' '') (drop 4 text') of
                  [d, s, e] \<Rightarrow>
                    (case text_to_date d of
                       Inl err \<Rightarrow> Inl err
                     | Inr d' \<Rightarrow>
                         (case text_to_time (Str s) of
                            Inl err \<Rightarrow> Inl err
                          | Inr s' \<Rightarrow>
                              (case text_to_time (Str e) of
                                 Inl err \<Rightarrow> Inl err
                               | Inr e' \<Rightarrow> vanilla_Record_init d' s' e')))
                | _ \<Rightarrow> Inl ValueError))"

definition from_start :: "date \<Rightarrow> pyval \<Rightarrow> error + Record" where
  \<comment> \<open>the first argument is the value of \<^verbatim>\<open>today()\<close>\<close>
  "from_start today start =
     (case is_time start of
        Inl err \<Rightarrow> Inl err
      | Inr ok \<Rightarrow>
          if \<not> ok then Inl (AssertionError [])
          else if start = Str NONE_TIME then Inl (AssertionError [])
          else (case text_to_time start of
                  Inl err \<Rightarrow> Inl err
                | Inr t \<Rightarrow> Record_init today t None))"

definition from_end :: "date \<Rightarrow> pyval \<Rightarrow> error + Record" where
  \<comment> \<open>\<^verbatim>\<open>main.py\<close> lines 188 to 192: the body reads the name \<^verbatim>\<open>start\<close>, which is not a
      parameter of \<^verbatim>\<open>from_end\<close> and so means the module-level function\<close>
  "from_end today end' =
     (case is_time start_global of
        Inl err \<Rightarrow> Inl err
      | Inr ok \<Rightarrow>
          if \<not> ok then Inl (AssertionError [])
          else if end' = Str NONE_TIME then Inl (AssertionError [])
          else (case text_to_time start_global of
                  Inl err \<Rightarrow> Inl err
                | Inr t \<Rightarrow> Record_init today None t))"

definition vanilla_from_start :: "date \<Rightarrow> pyval \<Rightarrow> error + Record" where
  "vanilla_from_start today start =
     (case vanilla_is_time start of
        Inl err \<Rightarrow> Inl err
      | Inr ok \<Rightarrow>
          if \<not> ok then Inl (AssertionError [])
          else if start = Str NONE_TIME then Inl (AssertionError [])
          else (case text_to_time start of
                  Inl err \<Rightarrow> Inl err
                | Inr t \<Rightarrow> vanilla_Record_init today t None))"

definition vanilla_from_stop :: "date \<Rightarrow> pyval \<Rightarrow> error + Record" where
  \<comment> \<open>\<^verbatim>\<open>vanilla.py\<close> lines 128 to 132, with the same use of the name \<^verbatim>\<open>start\<close>\<close>
  "vanilla_from_stop today stop =
     (case vanilla_is_time start_global of
        Inl err \<Rightarrow> Inl err
      | Inr ok \<Rightarrow>
          if \<not> ok then Inl (AssertionError [])
          else if stop = Str NONE_TIME then Inl (AssertionError [])
          else (case text_to_time start_global of
                  Inl err \<Rightarrow> Inl err
                | Inr t \<Rightarrow> vanilla_Record_init today None t))"

definition time_micros :: "time \<Rightarrow> int" where
  \<comment> \<open>microseconds since midnight\<close>
  "time_micros t =
     ((int (hour t) * 60 + int (minute t)) * 60 + int (second t)) * 1000000 + int (microsecond t)"

definition Record_worktime :: "Record \<Rightarrow> timedelta option" where
  \<comment> \<open>\<^verbatim>\<open>combine(day, end) - combine(day, start)\<close>: both on the same day\<close>
  "Record_worktime r =
     (case (rec_start r, rec_end r) of
        (Some s, Some e) \<Rightarrow> Some (time_micros e - time_micros s)
      | _ \<Rightarrow> None)"

definition Record_text :: "Record \<Rightarrow> string" where
  "Record_text r =
     date_to_text (rec_day r) @ '' '' @ time_to_text (rec_start r) @ '' ''
       @ time_to_text (rec_end r)"

definition Record_str :: "Record \<Rightarrow> string" where
  "Record_str r = Record_text r @ '' ['' @ timedelta_to_text (Record_worktime r) @ '']''"

section \<open>Day and Week\<close>

record Day =
  day_day :: date
  day_baseline :: timedelta
  day_records :: "Record list"

definition Day_from_record :: "Record \<Rightarrow> timedelta \<Rightarrow> Day" where
  "Day_from_record r baseline = \<lparr>day_day = rec_day r, day_baseline = baseline, day_records = [r]\<rparr>"

definition Day_add_record :: "Day \<Rightarrow> Record \<Rightarrow> error + Day" where
  "Day_add_record d r =
     (if rec_day r = day_day d then Inr (d\<lparr>day_records := day_records d @ [r]\<rparr>)
      else Inl (AssertionError ''Record must be from the same day!''))"

definition Day_worktime :: "Day \<Rightarrow> timedelta option" where
  "Day_worktime d =
     (let worktimes = map Record_worktime (day_records d)
      in if None \<in> set worktimes then None else Some (sum_timedeltas (map the worktimes)))"

definition Day_delta :: "Day \<Rightarrow> timedelta option" where
  \<comment> \<open>\<^verbatim>\<open>main.py\<close>: \<^verbatim>\<open>-(self.baseline - worktime)\<close>\<close>
  "Day_delta d =
     (case Day_worktime d of None \<Rightarrow> None | Some worktime \<Rightarrow> Some (- (day_baseline d - worktime)))"

definition vanilla_Day_delta :: "Day \<Rightarrow> timedelta option" where
  \<comment> \<open>\<^verbatim>\<open>vanilla.py\<close>: \<^verbatim>\<open>worktime - self.worktime_reference\<close>\<close>
  "vanilla_Day_delta d =
     (case Day_worktime d of None \<Rightarrow> None | Some worktime \<Rightarrow> Some (worktime - day_baseline d))"

definition Day_week :: "Day \<Rightarrow> nat \<times> nat" where
  \<comment> \<open>\<^verbatim>\<open>week(y, w)\<close> of the first two components of \<^verbatim>\<open>isocalendar()\<close>\<close>
  "Day_week d = (fst (isocalendar (day_day d)), fst (snd (isocalendar (day_day d))))"

definition Day_str :: "Day \<Rightarrow> string" where
  "Day_str d =
     date_to_text (day_day d) @ '': '' @ timedelta_to_text (Day_worktime d) @ '' [''
       @ signed_timedelta_to_text (Day_delta d) @ '']''"

record Week =
  week_week :: "nat \<times> nat"
  week_days :: "Day list"

definition Week_from_day :: "Day \<Rightarrow> Week" where
  "Week_from_day d = \<lparr>week_week = Day_week d, week_days = [d]\<rparr>"

definition Week_add_day :: "Week \<Rightarrow> Day \<Rightarrow> error + Week" where
  "Week_add_day w d =
     (if Day_week d = week_week w then Inr (w\<lparr>week_days := week_days w @ [d]\<rparr>)
      else Inl (AssertionError ''Day must be in the same week!''))"

definition Week_worktime :: "Week \<Rightarrow> timedelta option" where
  "Week_worktime w =
     (let worktimes = map Day_worktime (week_days w)
      in if None \<in> set worktimes then None else Some (sum_timedeltas (map the worktimes)))"

definition Week_delta :: "Week \<Rightarrow> timedelta option" where
  "Week_delta w =
     (let deltas = map Day_delta (week_days w)
      in if None \<in> set deltas then None else Some (sum_timedeltas (map the deltas)))"

section \<open>DB: the ledger and its file\<close>

text \<open>
  The file system is an explicit store: the text of each regular file, by path
  (\<^verbatim>\<open>path.is_file()\<close> holds where the store has a text). \<^verbatim>\<open>Config\<close> is outside the ledger
  core; the path and the baseline it supplies are plain values here.

  \<^verbatim>\<open>DB.start\<close> and \<^verbatim>\<open>DB.end\<close> (\<^verbatim>\<open>DB.stop\<close>) take the value of \<^verbatim>\<open>today()\<close> and the \<^verbatim>\<open>time\<close>
  argument, which is the \<^verbatim>\<open>datetime.time\<close> of \<^verbatim>\<open>now()\<close> or the raw text of the command line
  (the parameter is annotated \<^verbatim>\<open>str\<close>). Their result is how the call ends, the ledger after
  it or the exception, and the file system after it. An exception ends the command: the
  ledger object is not used again.
\<close>

type_synonym files = "string \<Rightarrow> string option"

record DB =
  db_path :: string
  db_baseline :: timedelta
  db_records :: "Record list"

fun universal_newlines :: "bool \<Rightarrow> string \<Rightarrow> string" where
  \<comment> \<open>reading in text mode: \<^verbatim>\<open>\r\n\<close> and \<^verbatim>\<open>\r\<close> arrive as \<^verbatim>\<open>\n\<close>; the flag says that the
      character before was \<^verbatim>\<open>\r\<close>\<close>
  "universal_newlines prev [] = []"
| "universal_newlines prev (c # cs) =
     (if c = CHR 0x0D then CHR 0x0A # universal_newlines True cs
      else if c = CHR 0x0A \<and> prev then universal_newlines False cs
      else c # universal_newlines False cs)"

fun readlines :: "string \<Rightarrow> string list" where
  \<comment> \<open>each line with its \<^verbatim>\<open>\n\<close>; a last line without one is kept\<close>
  "readlines [] = []"
| "readlines (c # cs) =
     (if c = CHR 0x0A then [c] # readlines cs
      else (case readlines cs of [] \<Rightarrow> [[c]] | l # ls \<Rightarrow> (c # l) # ls))"

definition file_lines :: "string \<Rightarrow> string list" where
  \<comment> \<open>\<^verbatim>\<open>[line.replace("\n", "") for line in file.readlines()]\<close>\<close>
  "file_lines content =
     map (filter (\<lambda>c. c \<noteq> CHR 0x0A)) (readlines (universal_newlines False content))"

fun load_records :: "string list \<Rightarrow> Record list \<Rightarrow> error + Record list" where
  \<comment> \<open>the loop of \<^verbatim>\<open>load\<close> in \<^verbatim>\<open>main.py\<close>: the handler is \<^verbatim>\<open>except: raise\<close>, so the exception
      of \<^verbatim>\<open>from_text\<close> leaves \<^verbatim>\<open>load\<close> as it is; the \<^verbatim>\<open>print\<close> and \<^verbatim>\<open>exit\<close> below the
      \<^verbatim>\<open>raise\<close> are never reached\<close>
  "load_records [] records = Inr records"
| "load_records (line # rest) records =
     (case from_text line of
        Inl err \<Rightarrow> Inl err
      | Inr r \<Rightarrow> load_records rest (records @ [r]))"

definition DB_load :: "string \<Rightarrow> files \<Rightarrow> error + Record list" where
  "DB_load path fs =
     (case fs path of
        None \<Rightarrow> Inr []
      | Some content \<Rightarrow> load_records (file_lines content) [])"

fun vanilla_load_records ::
  "string \<Rightarrow> string list \<Rightarrow> string list \<Rightarrow> Record list \<Rightarrow> string list \<times> (error + Record list)"
where
  \<comment> \<open>the loop of \<^verbatim>\<open>load\<close> in \<^verbatim>\<open>vanilla.py\<close>, over the lines still to read; \<open>lines\<close> is the
      whole list. The result is what was printed, line by line, and how \<^verbatim>\<open>load\<close> ends.\<close>
  "vanilla_load_records path lines [] records = ([], Inr records)"
| "vanilla_load_records path lines (line # rest) records =
     (case vanilla_from_text line of
        Inr r \<Rightarrow> vanilla_load_records path lines rest (records @ [r])
      | Inl (AssertionError msg) \<Rightarrow>
          ([msg,
            path @ ''#L'' @ str_nat (index lines line) @ '': Invalid record '' @ [CHR 0x27]
              @ line @ [CHR 0x27] @ ''!'',
            ''Edit '' @ path @ '' to correct the record.''],
           Inl (SystemExit 1))
      | Inl err \<Rightarrow> ([], Inl err))"

definition vanilla_DB_load :: "string \<Rightarrow> files \<Rightarrow> string list \<times> (error + Record list)" where
  "vanilla_DB_load path fs =
     (case fs path of
        None \<Rightarrow> ([], Inr [])
      | Some content \<Rightarrow> vanilla_load_records path (file_lines content) (file_lines content) [])"

definition DB_init :: "string \<Rightarrow> timedelta \<Rightarrow> files \<Rightarrow> error + DB" where
  "DB_init path baseline fs =
     (case DB_load path fs of
        Inl err \<Rightarrow> Inl err
      | Inr records \<Rightarrow> Inr \<lparr>db_path = path, db_baseline = baseline, db_records = records\<rparr>)"

definition vanilla_DB_init :: "string \<Rightarrow> timedelta \<Rightarrow> files \<Rightarrow> string list \<times> (error + DB)" where
  "vanilla_DB_init path worktime fs =
     (case vanilla_DB_load path fs of
        (out, Inl err) \<Rightarrow> (out, Inl err)
      | (out, Inr records) \<Rightarrow>
          (out, Inr \<lparr>db_path = path, db_baseline = worktime, db_records = records\<rparr>))"

definition DB_save :: "DB \<Rightarrow> files \<Rightarrow> files" where
  \<comment> \<open>the file is written anew with the texts of all records\<close>
  "DB_save db fs = fs(db_path db \<mapsto> join [CHR 0x0A] (map Record_text (db_records db)))"

definition DB_empty :: "DB \<Rightarrow> bool" where
  "DB_empty db = (length (db_records db) = 0)"

definition DB_last :: "DB \<Rightarrow> error + Record" where
  "DB_last db =
     (if DB_empty db then Inl (AssertionError ''DB is empty, no last record!'')
      else Inr (last (db_records db)))"

definition dict_replace :: "'k \<Rightarrow> 'v \<Rightarrow> ('k \<times> 'v) list \<Rightarrow> ('k \<times> 'v) list" where
  \<comment> \<open>the value under a key of the dict changes; the key keeps its place\<close>
  "dict_replace k v kvs = map (\<lambda>kv. if fst kv = k then (k, v) else kv) kvs"

text \<open>
  A \<^verbatim>\<open>dict\<close> keeps its keys in the order of their insertion; it is a list of pairs of a key
  and a value here, and \<^verbatim>\<open>.values()\<close> the list of the values.
\<close>

fun days_loop :: "timedelta \<Rightarrow> Record list \<Rightarrow> (date \<times> Day) list \<Rightarrow> error + (date \<times> Day) list" where
  "days_loop baseline [] days = Inr days"
| "days_loop baseline (r # rs) days =
     (case map_of days (rec_day r) of
        None \<Rightarrow> days_loop baseline rs (days @ [(rec_day r, Day_from_record r baseline)])
      | Some d \<Rightarrow>
          (case Day_add_record d r of
             Inl err \<Rightarrow> Inl err
           | Inr d' \<Rightarrow> days_loop baseline rs (dict_replace (rec_day r) d' days)))"

definition DB_days :: "DB \<Rightarrow> error + Day list" where
  \<comment> \<open>the same in \<^verbatim>\<open>vanilla.py\<close>, where the baseline is called \<^verbatim>\<open>worktime\<close>\<close>
  "DB_days db =
     (case days_loop (db_baseline db) (db_records db) [] of
        Inl err \<Rightarrow> Inl err
      | Inr days \<Rightarrow> Inr (map snd days))"

fun weeks_loop :: "Day list \<Rightarrow> ((nat \<times> nat) \<times> Week) list \<Rightarrow> error + ((nat \<times> nat) \<times> Week) list" where
  "weeks_loop [] weeks = Inr weeks"
| "weeks_loop (d # ds) weeks =
     (case map_of weeks (Day_week d) of
        None \<Rightarrow> weeks_loop ds (weeks @ [(Day_week d, Week_from_day d)])
      | Some w \<Rightarrow>
          (case Week_add_day w d of
             Inl err \<Rightarrow> Inl err
           | Inr w' \<Rightarrow> weeks_loop ds (dict_replace (Day_week d) w' weeks)))"

definition DB_weeks :: "DB \<Rightarrow> error + Week list" where
  "DB_weeks db =
     (case DB_days db of
        Inl err \<Rightarrow> Inl err
      | Inr ds \<Rightarrow>
          (case weeks_loop ds [] of
             Inl err \<Rightarrow> Inl err
           | Inr weeks \<Rightarrow> Inr (map snd weeks)))"

definition pydantic_time :: "(string \<Rightarrow> time option) \<Rightarrow> pyval option \<Rightarrow> error + time option" where
  \<comment> \<open>pydantic's validation of a field annotated \<^verbatim>\<open>Optional[dt.time]\<close>: \<^verbatim>\<open>None\<close> and a time
      pass, a text is converted or refused. The conversion of a text is the library's; it
      is the parameter \<open>convert\<close>, which gives the time where pydantic accepts the text (as
      it does \<^verbatim>\<open>HH:MM\<close>) and \<open>None\<close> where it refuses it.\<close>
  "pydantic_time convert x =
     (case x of
        None \<Rightarrow> Inr None
      | Some (Time t) \<Rightarrow> Inr (Some t)
      | Some (Str s) \<Rightarrow>
          (case convert s of None \<Rightarrow> Inl ValidationError | Some t \<Rightarrow> Inr (Some t))
      | Some (Func f) \<Rightarrow> Inl ValidationError)"

definition Record_call ::
  "(string \<Rightarrow> time option) \<Rightarrow> date \<Rightarrow> pyval option \<Rightarrow> pyval option \<Rightarrow> error + Record"
where
  \<comment> \<open>\<^verbatim>\<open>Record(day=d, start=s, end=e)\<close> of \<^verbatim>\<open>main.py\<close> with arguments of any type: the fields
      are validated, then the validators of the model run (\<open>Record_init\<close>)\<close>
  "Record_call convert d s e =
     (case pydantic_time convert s of
        Inl err \<Rightarrow> Inl ValidationError
      | Inr s' \<Rightarrow>
          (case pydantic_time convert e of
             Inl err \<Rightarrow> Inl ValidationError
           | Inr e' \<Rightarrow> Record_init d s' e'))"

definition DB_start ::
  "(string \<Rightarrow> time option) \<Rightarrow> date \<Rightarrow> pyval \<Rightarrow> DB \<Rightarrow> files \<Rightarrow> (error + DB) \<times> files"
where
  "DB_start convert today x db fs =
     (case Record_call convert today (Some x) None of
        Inl err \<Rightarrow> (Inl err, fs)
      | Inr r \<Rightarrow>
          (Inr (db\<lparr>db_records := db_records db @ [r]\<rparr>),
           DB_save (db\<lparr>db_records := db_records db @ [r]\<rparr>) fs))"

definition DB_end ::
  "(string \<Rightarrow> time option) \<Rightarrow> date \<Rightarrow> pyval \<Rightarrow> DB \<Rightarrow> files \<Rightarrow> (error + DB) \<times> files"
where
  \<comment> \<open>In the second branch \<^verbatim>\<open>self.last.end = time\<close> stores the argument as it is: pydantic
      does not validate an assignment (\<^verbatim>\<open>validate_assignment\<close> is off by default). With
      anything but a \<^verbatim>\<open>datetime.time\<close> there, \<^verbatim>\<open>save()\<close> opens the file for writing, which
      empties it, and \<^verbatim>\<open>time_to_text\<close> raises \<^verbatim>\<open>AttributeError\<close> at \<^verbatim>\<open>time.strftime\<close> before
      anything is written.\<close>
  "DB_end convert today x db fs =
     (case (if DB_empty db then Inr True
            else (case DB_last db of Inl err \<Rightarrow> Inl err | Inr l \<Rightarrow> Inr (rec_end l \<noteq> None))) of
        Inl err \<Rightarrow> (Inl err, fs)
      | Inr True \<Rightarrow>
          (case Record_call convert today None (Some x) of
             Inl err \<Rightarrow> (Inl err, fs)
           | Inr r \<Rightarrow>
               (Inr (db\<lparr>db_records := db_records db @ [r]\<rparr>),
                DB_save (db\<lparr>db_records := db_records db @ [r]\<rparr>) fs))
      | Inr False \<Rightarrow>
          (case DB_last db of
             Inl err \<Rightarrow> (Inl err, fs)
           | Inr l \<Rightarrow>
               (case x of
                  Time t \<Rightarrow>
                    (Inr (db\<lparr>db_records := butlast (db_records db) @ [l\<lparr>rec_end := Some t\<rparr>]\<rparr>),
                     DB_save
                       (db\<lparr>db_records := butlast (db_records db) @ [l\<lparr>rec_end := Some t\<rparr>]\<rparr>)
                       fs)
                | Str s \<Rightarrow> (Inl AttributeError, fs(db_path db \<mapsto> []))
                | Func f \<Rightarrow> (Inl AttributeError, fs(db_path db \<mapsto> [])))))"

definition vanilla_DB_start :: "date \<Rightarrow> pyval \<Rightarrow> DB \<Rightarrow> files \<Rightarrow> (error + DB) \<times> files" where
  \<comment> \<open>\<^verbatim>\<open>Record(start=time)\<close> of \<^verbatim>\<open>vanilla.py\<close> keeps the argument as it is (its assertions pass:
      the start is given, and with no stop nothing is compared). With anything but a
      \<^verbatim>\<open>datetime.time\<close> in the new record, \<^verbatim>\<open>save()\<close> empties the file and raises
      \<^verbatim>\<open>AttributeError\<close>, as in \<open>DB_end\<close>.\<close>
  "vanilla_DB_start today x db fs =
     (case x of
        Time t \<Rightarrow>
          (case vanilla_Record_init today (Some t) None of
             Inl err \<Rightarrow> (Inl err, fs)
           | Inr r \<Rightarrow>
               (Inr (db\<lparr>db_records := db_records db @ [r]\<rparr>),
                DB_save (db\<lparr>db_records := db_records db @ [r]\<rparr>) fs))
      | Str s \<Rightarrow> (Inl AttributeError, fs(db_path db \<mapsto> []))
      | Func f \<Rightarrow> (Inl AttributeError, fs(db_path db \<mapsto> [])))"

definition vanilla_DB_stop :: "date \<Rightarrow> pyval \<Rightarrow> DB \<Rightarrow> files \<Rightarrow> (error + DB) \<times> files" where
  "vanilla_DB_stop today x db fs =
     (case (if DB_empty db then Inr True
            else (case DB_last db of Inl err \<Rightarrow> Inl err | Inr l \<Rightarrow> Inr (rec_end l \<noteq> None))) of
        Inl err \<Rightarrow> (Inl err, fs)
      | Inr True \<Rightarrow>
          (case x of
             Time t \<Rightarrow>
               (case vanilla_Record_init today None (Some t) of
                  Inl err \<Rightarrow> (Inl err, fs)
                | Inr r \<Rightarrow>
                    (Inr (db\<lparr>db_records := db_records db @ [r]\<rparr>),
                     DB_save (db\<lparr>db_records := db_records db @ [r]\<rparr>) fs))
           | Str s \<Rightarrow> (Inl AttributeError, fs(db_path db \<mapsto> []))
           | Func f \<Rightarrow> (Inl AttributeError, fs(db_path db \<mapsto> [])))
      | Inr False \<Rightarrow>
          (case DB_last db of
             Inl err \<Rightarrow> (Inl err, fs)
           | Inr l \<Rightarrow>
               (case x of
                  Time t \<Rightarrow>
                    (Inr (db\<lparr>db_records := butlast (db_records db) @ [l\<lparr>rec_end := Some t\<rparr>]\<rparr>),
                     DB_save
                       (db\<lparr>db_records := butlast (db_records db) @ [l\<lparr>rec_end := Some t\<rparr>]\<rparr>)
                       fs)
                | Str s \<Rightarrow> (Inl AttributeError, fs(db_path db \<mapsto> []))
                | Func f \<Rightarrow> (Inl AttributeError, fs(db_path db \<mapsto> [])))))"

section \<open>Reference definitions for the claims\<close>

definition hm :: "nat \<Rightarrow> nat \<Rightarrow> time" where
  \<comment> \<open>\<^verbatim>\<open>dt.time(h, m)\<close>\<close>
  "hm h m = \<lparr>hour = h, minute = m, second = 0, microsecond = 0\<rparr>"

text \<open>
  The grouping as the specification words it, to compare \<open>DB_days\<close> and \<open>DB_weeks\<close> with:
  one group for each key, in the order in which the keys are first met, holding the members
  with that key in their order.
\<close>

definition first_seen :: "'a list \<Rightarrow> 'a list" where
  \<comment> \<open>the distinct elements, in the order of their first occurrence\<close>
  "first_seen xs = rev (remdups (rev xs))"

definition days_by_first_seen :: "timedelta \<Rightarrow> Record list \<Rightarrow> Day list" where
  "days_by_first_seen b rs =
     map (\<lambda>k. \<lparr>day_day = k, day_baseline = b, day_records = filter (\<lambda>r. rec_day r = k) rs\<rparr>)
       (first_seen (map rec_day rs))"

definition weeks_by_first_seen :: "Day list \<Rightarrow> Week list" where
  "weeks_by_first_seen ds =
     map (\<lambda>k. \<lparr>week_week = k, week_days = filter (\<lambda>d. Day_week d = k) ds\<rparr>)
       (first_seen (map Day_week ds))"

section \<open>Properties\<close>

subsection \<open>Validation of a Record\<close>

lemma time_le_iff: "time_le a b = (\<not> time_less b a)"
  by (cases a; cases b) (auto simp: time_le_def time_less_def)

text \<open>
  C7. A Record with neither start nor end is refused, and so is one with both where the start
  is after the end; with both and the start not after the end (the two may be equal) the
  record is built. The refusal is pydantic's \<open>ValidationError\<close> in \<^verbatim>\<open>main.py\<close> and the failed
  assertion of \<^verbatim>\<open>Record.__init__\<close> in \<^verbatim>\<open>vanilla.py\<close>.
\<close>

theorem Record_init_validation:
  "Record_init d None None = Inl ValidationError
   \<and> Record_init d (Some s) (Some e) =
       (if time_less e s then Inl ValidationError
        else Inr \<lparr>rec_day = d, rec_start = Some s, rec_end = Some e\<rparr>)
   \<and> Record_init d (Some s) (Some s) = Inr \<lparr>rec_day = d, rec_start = Some s, rec_end = Some s\<rparr>
   \<and> vanilla_Record_init d None None
       = Inl (AssertionError ''Either start or stop must be defined!'')
   \<and> vanilla_Record_init d (Some s) (Some e) =
       (if time_less e s then Inl (AssertionError ''Start must come before stop!'')
        else Inr \<lparr>rec_day = d, rec_start = Some s, rec_end = Some e\<rparr>)
   \<and> vanilla_Record_init d (Some s) (Some s)
       = Inr \<lparr>rec_day = d, rec_start = Some s, rec_end = Some s\<rparr>"
  by (simp add: Record_init_def vanilla_Record_init_def check_either_start_or_end_def
      check_start_before_end_def time_le_iff) (simp add: time_less_def)

theorem Record_init_validation_witness:
  "Record_init \<lparr>year = 2024, month = 1, day = 15\<rparr> None None = Inl ValidationError
   \<and> Record_init \<lparr>year = 2024, month = 1, day = 15\<rparr> (Some (hm 17 30)) (Some (hm 9 0))
       = Inl ValidationError
   \<and> Record_init \<lparr>year = 2024, month = 1, day = 15\<rparr> (Some (hm 9 0)) (Some (hm 17 30))
       = Inr \<lparr>rec_day = \<lparr>year = 2024, month = 1, day = 15\<rparr>,
              rec_start = Some (hm 9 0), rec_end = Some (hm 17 30)\<rparr>
   \<and> vanilla_Record_init \<lparr>year = 2024, month = 1, day = 15\<rparr> (Some (hm 17 30)) (Some (hm 9 0))
       = Inl (AssertionError ''Start must come before stop!'')
   \<and> vanilla_Record_init \<lparr>year = 2024, month = 1, day = 15\<rparr> (Some (hm 9 0)) (Some (hm 17 30))
       = Inr \<lparr>rec_day = \<lparr>year = 2024, month = 1, day = 15\<rparr>,
              rec_start = Some (hm 9 0), rec_end = Some (hm 17 30)\<rparr>"
  using Record_init_validation [of "\<lparr>year = 2024, month = 1, day = 15\<rparr>" "hm 17 30" "hm 9 0"]
    Record_init_validation [of "\<lparr>year = 2024, month = 1, day = 15\<rparr>" "hm 9 0" "hm 17 30"]
  by (simp add: time_less_def hm_def)

subsection \<open>The start/stop state machine\<close>

text \<open>
  With a \<^verbatim>\<open>datetime.time\<close> \<open>t\<close>, the argument when the command is given no time: on a ledger
  that is empty or whose last record has its end set, \<^verbatim>\<open>end\<close> (\<^verbatim>\<open>stop\<close>) appends the
  half-record with no start and end \<open>t\<close>; on a ledger whose last record is open it puts \<open>t\<close>
  into the end of that record and appends nothing; \<^verbatim>\<open>start\<close> appends a record with only its
  start set, whatever the last record is. Each writes the file anew. \<^verbatim>\<open>vanilla.py\<close> does the
  same as \<^verbatim>\<open>main.py\<close>.
\<close>

lemma DB_start_end_on_times:
  "(db_records db = [] \<or> rec_end (last (db_records db)) \<noteq> None \<longrightarrow>
      DB_end convert today (Time t) db fs =
        (Inr (db\<lparr>db_records := db_records db @ [\<lparr>rec_day = today, rec_start = None, rec_end = Some t\<rparr>]\<rparr>),
         DB_save (db\<lparr>db_records := db_records db @ [\<lparr>rec_day = today, rec_start = None, rec_end = Some t\<rparr>]\<rparr>) fs)
      \<and> vanilla_DB_stop today (Time t) db fs = DB_end convert today (Time t) db fs)
   \<and> (db_records db \<noteq> [] \<and> rec_end (last (db_records db)) = None \<longrightarrow>
      DB_end convert today (Time t) db fs =
        (Inr (db\<lparr>db_records := butlast (db_records db) @ [(last (db_records db))\<lparr>rec_end := Some t\<rparr>]\<rparr>),
         DB_save (db\<lparr>db_records := butlast (db_records db) @ [(last (db_records db))\<lparr>rec_end := Some t\<rparr>]\<rparr>) fs)
      \<and> vanilla_DB_stop today (Time t) db fs = DB_end convert today (Time t) db fs)
   \<and> DB_start convert today (Time t) db fs =
        (Inr (db\<lparr>db_records := db_records db @ [\<lparr>rec_day = today, rec_start = Some t, rec_end = None\<rparr>]\<rparr>),
         DB_save (db\<lparr>db_records := db_records db @ [\<lparr>rec_day = today, rec_start = Some t, rec_end = None\<rparr>]\<rparr>) fs)
   \<and> vanilla_DB_start today (Time t) db fs = DB_start convert today (Time t) db fs"
  by (auto simp: DB_end_def DB_start_def vanilla_DB_stop_def vanilla_DB_start_def DB_empty_def
      DB_last_def Record_call_def pydantic_time_def Record_init_def vanilla_Record_init_def
      check_either_start_or_end_def check_start_before_end_def)

text \<open>
  With a text \<open>s\<close>, the argument when the command is given a time. Where a \<open>Record\<close> is
  constructed, \<^verbatim>\<open>main.py\<close> has pydantic convert the text: \<^verbatim>\<open>start\<close>, and \<^verbatim>\<open>end\<close> on a ledger
  that is empty or whose last record has its end set, do with a text that pydantic converts
  to \<open>t\<close> what they do with \<open>t\<close>. Where the text is assigned to the open last record nothing
  converts it, and \<^verbatim>\<open>save()\<close> raises \<^verbatim>\<open>AttributeError\<close> and leaves the file empty.
  \<^verbatim>\<open>vanilla.py\<close> converts nowhere: \<^verbatim>\<open>start\<close> and \<^verbatim>\<open>stop\<close> with a text end so on every ledger.
\<close>

lemma DB_start_end_on_converted_text:
  "convert s = Some t \<Longrightarrow>
   DB_start convert today (Str s) db fs = DB_start convert today (Time t) db fs
   \<and> (db_records db = [] \<or> rec_end (last (db_records db)) \<noteq> None \<longrightarrow>
        DB_end convert today (Str s) db fs = DB_end convert today (Time t) db fs)"
  by (auto simp: DB_end_def DB_start_def DB_empty_def DB_last_def Record_call_def pydantic_time_def)

lemma DB_end_text_on_open:
  "db_records db \<noteq> [] \<Longrightarrow> rec_end (last (db_records db)) = None \<Longrightarrow>
   DB_end convert today (Str s) db fs = (Inl AttributeError, fs(db_path db \<mapsto> []))
   \<and> vanilla_DB_stop today (Str s) db fs = (Inl AttributeError, fs(db_path db \<mapsto> []))"
  by (simp add: DB_end_def vanilla_DB_stop_def DB_empty_def DB_last_def)

lemma vanilla_text_argument:
  "vanilla_DB_start today (Str s) db fs = (Inl AttributeError, fs(db_path db \<mapsto> []))
   \<and> vanilla_DB_stop today (Str s) db fs = (Inl AttributeError, fs(db_path db \<mapsto> []))"
  by (cases "db_records db = []"; cases "rec_end (last (db_records db))")
    (simp_all add: vanilla_DB_start_def vanilla_DB_stop_def DB_empty_def DB_last_def)

lemma Record_text_closed_1700:
  "Record_text \<lparr>rec_day = \<lparr>year = 2024, month = 1, day = 15\<rparr>, rec_start = Some (hm 9 0),
     rec_end = Some (hm 17 0)\<rparr> = ''Mon 2024-01-15 09:00 17:00''"
  by code_simp

text \<open>
  C2. \<^verbatim>\<open>end("17:00")\<close> on a ledger whose last record is open does not set the end of that
  record. The ledger holds the open record of 2024-01-15 that starts at 09:00, and its file
  the line \<^verbatim>\<open>Mon 2024-01-15 09:00 --:--\<close>. The text \<^verbatim>\<open>17:00\<close> passes \<^verbatim>\<open>is_time\<close>, as the command
  asserts, and \<^verbatim>\<open>DB.end\<close> of \<^verbatim>\<open>main.py\<close> assigns it to the attribute as a text; \<^verbatim>\<open>save()\<close> then
  raises \<^verbatim>\<open>AttributeError\<close> and leaves the file empty. With the \<^verbatim>\<open>datetime.time\<close> 17:00 the same
  call stores the record with start 09:00 and end 17:00 and writes its line. In \<^verbatim>\<open>vanilla.py\<close>
  the text fails in the same way in \<^verbatim>\<open>stop("17:00")\<close> on this ledger, in \<^verbatim>\<open>stop("10:00")\<close> on
  an empty ledger and in \<^verbatim>\<open>start("08:00")\<close>.
\<close>

theorem DB_end_text_argument:
  "is_time (Str ''17:00'') = Inr True
   \<and> DB_end convert \<lparr>year = 2024, month = 1, day = 15\<rparr> (Str ''17:00'')
      \<lparr>db_path = ''arbeitszeit.txt'', db_baseline = timedelta 8 0,
         db_records = [\<lparr>rec_day = \<lparr>year = 2024, month = 1, day = 15\<rparr>,
                         rec_start = Some (hm 9 0), rec_end = None\<rparr>]\<rparr>
      [''arbeitszeit.txt'' \<mapsto> ''Mon 2024-01-15 09:00 --:--'']
     = (Inl AttributeError, [''arbeitszeit.txt'' \<mapsto> []])
   \<and> DB_end convert \<lparr>year = 2024, month = 1, day = 15\<rparr> (Time (hm 17 0))
      \<lparr>db_path = ''arbeitszeit.txt'', db_baseline = timedelta 8 0,
         db_records = [\<lparr>rec_day = \<lparr>year = 2024, month = 1, day = 15\<rparr>,
                         rec_start = Some (hm 9 0), rec_end = None\<rparr>]\<rparr>
      [''arbeitszeit.txt'' \<mapsto> ''Mon 2024-01-15 09:00 --:--'']
     = (Inr \<lparr>db_path = ''arbeitszeit.txt'', db_baseline = timedelta 8 0,
             db_records = [\<lparr>rec_day = \<lparr>year = 2024, month = 1, day = 15\<rparr>,
                             rec_start = Some (hm 9 0), rec_end = Some (hm 17 0)\<rparr>]\<rparr>,
        [''arbeitszeit.txt'' \<mapsto> ''Mon 2024-01-15 09:00 17:00''])
   \<and> vanilla_is_time (Str ''17:00'') = Inr True
   \<and> vanilla_DB_stop \<lparr>year = 2024, month = 1, day = 15\<rparr> (Str ''17:00'')
      \<lparr>db_path = ''arbeitszeit.txt'', db_baseline = timedelta 8 0,
         db_records = [\<lparr>rec_day = \<lparr>year = 2024, month = 1, day = 15\<rparr>,
                         rec_start = Some (hm 9 0), rec_end = None\<rparr>]\<rparr>
      [''arbeitszeit.txt'' \<mapsto> ''Mon 2024-01-15 09:00 --:--'']
     = (Inl AttributeError, [''arbeitszeit.txt'' \<mapsto> []])
   \<and> vanilla_DB_stop \<lparr>year = 2024, month = 1, day = 15\<rparr> (Str ''10:00'')
      \<lparr>db_path = ''arbeitszeit.txt'', db_baseline = timedelta 8 0, db_records = []\<rparr> Map.empty
     = (Inl AttributeError, [''arbeitszeit.txt'' \<mapsto> []])
   \<and> vanilla_DB_start \<lparr>year = 2024, month = 1, day = 15\<rparr> (Str ''08:00'')
      \<lparr>db_path = ''arbeitszeit.txt'', db_baseline = timedelta 8 0, db_records = []\<rparr> Map.empty
     = (Inl AttributeError, [''arbeitszeit.txt'' \<mapsto> []])"
proof -
  have m: "is_time (Str ''17:00'') = Inr True"
    by code_simp
  have v: "vanilla_is_time (Str ''17:00'') = Inr True"
    by code_simp
  have a: "DB_end convert \<lparr>year = 2024, month = 1, day = 15\<rparr> (Time (hm 17 0))
      \<lparr>db_path = ''arbeitszeit.txt'', db_baseline = timedelta 8 0,
         db_records = [\<lparr>rec_day = \<lparr>year = 2024, month = 1, day = 15\<rparr>,
                         rec_start = Some (hm 9 0), rec_end = None\<rparr>]\<rparr>
      [''arbeitszeit.txt'' \<mapsto> ''Mon 2024-01-15 09:00 --:--'']
     = (Inr \<lparr>db_path = ''arbeitszeit.txt'', db_baseline = timedelta 8 0,
             db_records = [\<lparr>rec_day = \<lparr>year = 2024, month = 1, day = 15\<rparr>,
                             rec_start = Some (hm 9 0), rec_end = Some (hm 17 0)\<rparr>]\<rparr>,
        [''arbeitszeit.txt'' \<mapsto> ''Mon 2024-01-15 09:00 17:00''])"
    by (simp only: Record_text_closed_1700 [symmetric])
      (simp add: DB_end_def DB_empty_def DB_last_def DB_save_def)
  show ?thesis
    by (intro conjI a m v) (simp_all add: DB_end_def vanilla_DB_stop_def vanilla_DB_start_def
        DB_empty_def DB_last_def)
qed

subsection \<open>Loading a ledger whose file is missing\<close>

lemma Record_text_open_0900:
  "Record_text \<lparr>rec_day = \<lparr>year = 2024, month = 1, day = 15\<rparr>, rec_start = Some (hm 9 0),
     rec_end = None\<rparr> = ''Mon 2024-01-15 09:00 --:--''"
  by code_simp

text \<open>
  C10. When the path of the ledger is not a file, \<^verbatim>\<open>load\<close> returns the empty list and raises
  nothing (and \<^verbatim>\<open>vanilla.py\<close> prints nothing); the ledger so constructed is empty, and
  \<^verbatim>\<open>start\<close> and \<^verbatim>\<open>end\<close> (\<^verbatim>\<open>stop\<close>) on it, with a \<^verbatim>\<open>datetime.time\<close>, append their record and
  create the file with the text of that record.
\<close>

theorem DB_load_missing_file:
  assumes "fs path = None"
  shows "DB_load path fs = Inr []
   \<and> DB_init path b fs = Inr \<lparr>db_path = path, db_baseline = b, db_records = []\<rparr>
   \<and> vanilla_DB_load path fs = ([], Inr [])
   \<and> vanilla_DB_init path b fs = ([], Inr \<lparr>db_path = path, db_baseline = b, db_records = []\<rparr>)
   \<and> DB_start convert today (Time t) \<lparr>db_path = path, db_baseline = b, db_records = []\<rparr> fs
       = (Inr \<lparr>db_path = path, db_baseline = b,
               db_records = [\<lparr>rec_day = today, rec_start = Some t, rec_end = None\<rparr>]\<rparr>,
          fs(path \<mapsto> Record_text \<lparr>rec_day = today, rec_start = Some t, rec_end = None\<rparr>))
   \<and> DB_end convert today (Time t) \<lparr>db_path = path, db_baseline = b, db_records = []\<rparr> fs
       = (Inr \<lparr>db_path = path, db_baseline = b,
               db_records = [\<lparr>rec_day = today, rec_start = None, rec_end = Some t\<rparr>]\<rparr>,
          fs(path \<mapsto> Record_text \<lparr>rec_day = today, rec_start = None, rec_end = Some t\<rparr>))
   \<and> vanilla_DB_start today (Time t) \<lparr>db_path = path, db_baseline = b, db_records = []\<rparr> fs
       = (Inr \<lparr>db_path = path, db_baseline = b,
               db_records = [\<lparr>rec_day = today, rec_start = Some t, rec_end = None\<rparr>]\<rparr>,
          fs(path \<mapsto> Record_text \<lparr>rec_day = today, rec_start = Some t, rec_end = None\<rparr>))
   \<and> vanilla_DB_stop today (Time t) \<lparr>db_path = path, db_baseline = b, db_records = []\<rparr> fs
       = (Inr \<lparr>db_path = path, db_baseline = b,
               db_records = [\<lparr>rec_day = today, rec_start = None, rec_end = Some t\<rparr>]\<rparr>,
          fs(path \<mapsto> Record_text \<lparr>rec_day = today, rec_start = None, rec_end = Some t\<rparr>))"
  using assms
  by (simp add: DB_load_def DB_init_def vanilla_DB_load_def vanilla_DB_init_def DB_start_def
      DB_end_def vanilla_DB_start_def vanilla_DB_stop_def DB_empty_def DB_save_def Record_call_def
      pydantic_time_def Record_init_def vanilla_Record_init_def check_either_start_or_end_def
      check_start_before_end_def)

theorem DB_load_missing_file_witness:
  "Map.empty ''arbeitszeit.txt'' = (None :: string option)
   \<and> DB_init ''arbeitszeit.txt'' (timedelta 8 0) Map.empty
       = Inr \<lparr>db_path = ''arbeitszeit.txt'', db_baseline = timedelta 8 0, db_records = []\<rparr>
   \<and> DB_start Map.empty \<lparr>year = 2024, month = 1, day = 15\<rparr> (Time (hm 9 0))
        \<lparr>db_path = ''arbeitszeit.txt'', db_baseline = timedelta 8 0, db_records = []\<rparr> Map.empty
       = (Inr \<lparr>db_path = ''arbeitszeit.txt'', db_baseline = timedelta 8 0,
               db_records = [\<lparr>rec_day = \<lparr>year = 2024, month = 1, day = 15\<rparr>,
                               rec_start = Some (hm 9 0), rec_end = None\<rparr>]\<rparr>,
          [''arbeitszeit.txt'' \<mapsto> ''Mon 2024-01-15 09:00 --:--''])"
  using DB_load_missing_file [of Map.empty "''arbeitszeit.txt''" "timedelta 8 0" Map.empty
      "\<lparr>year = 2024, month = 1, day = 15\<rparr>" "hm 9 0"]
  by (simp only: Record_text_open_0900)

subsection \<open>The text of a record, read back\<close>

text \<open>
  C1. Reading back the text of a record fails in \<^verbatim>\<open>main.py\<close> when the start is absent. The
  record of 2024-01-15 with no start and the end 17:30 is a valid one, and its text is
  \<^verbatim>\<open>Mon 2024-01-15 --:-- 17:30\<close>. \<^verbatim>\<open>TIME_REGEX\<close> of \<^verbatim>\<open>main.py\<close> holds the characters
  \<^verbatim>\<open>{NONE_TIME}\<close> instead of \<^verbatim>\<open>--:--\<close>, and the pasted pattern of \<^verbatim>\<open>is_record\<close> has its first
  alternative end after the first time; so \<^verbatim>\<open>is_record\<close> refuses the text and \<^verbatim>\<open>from_text\<close>
  raises \<^verbatim>\<open>AssertionError\<close>. \<^verbatim>\<open>vanilla.py\<close>, whose pattern is built from \<^verbatim>\<open>NONE_TIME\<close>,
  returns the record.
\<close>

theorem from_text_absent_start:
  "Record_init \<lparr>year = 2024, month = 1, day = 15\<rparr> None (Some (hm 17 30))
     = Inr \<lparr>rec_day = \<lparr>year = 2024, month = 1, day = 15\<rparr>, rec_start = None,
            rec_end = Some (hm 17 30)\<rparr>
   \<and> Record_text \<lparr>rec_day = \<lparr>year = 2024, month = 1, day = 15\<rparr>, rec_start = None,
            rec_end = Some (hm 17 30)\<rparr> = ''Mon 2024-01-15 --:-- 17:30''
   \<and> is_record (Str ''Mon 2024-01-15 --:-- 17:30'') = Inr False
   \<and> from_text ''Mon 2024-01-15 --:-- 17:30'' = Inl (AssertionError [])
   \<and> vanilla_from_text ''Mon 2024-01-15 --:-- 17:30''
       = Inr \<lparr>rec_day = \<lparr>year = 2024, month = 1, day = 15\<rparr>, rec_start = None,
              rec_end = Some (hm 17 30)\<rparr>"
  by code_simp

subsection \<open>Closing a record before its start\<close>

text \<open>
  C3. \<^verbatim>\<open>end\<close> (\<^verbatim>\<open>stop\<close>) on an open record assigns the time to the attribute and validates
  nothing. On the ledger holding the open record of 2024-01-15 that starts at 09:00, the
  operation with the time 08:00 returns normally and stores a record with start 09:00 and
  end 08:00, which the constructor of \<open>Record\<close> refuses; the file it writes can no longer
  be loaded.
\<close>

theorem DB_end_before_start:
  "DB_end convert \<lparr>year = 2024, month = 1, day = 15\<rparr> (Time (hm 8 0))
      \<lparr>db_path = ''arbeitszeit.txt'', db_baseline = timedelta 8 0,
         db_records = [\<lparr>rec_day = \<lparr>year = 2024, month = 1, day = 15\<rparr>,
                         rec_start = Some (hm 9 0), rec_end = None\<rparr>]\<rparr> Map.empty
     = (Inr \<lparr>db_path = ''arbeitszeit.txt'', db_baseline = timedelta 8 0,
             db_records = [\<lparr>rec_day = \<lparr>year = 2024, month = 1, day = 15\<rparr>,
                             rec_start = Some (hm 9 0), rec_end = Some (hm 8 0)\<rparr>]\<rparr>,
        [''arbeitszeit.txt'' \<mapsto> ''Mon 2024-01-15 09:00 08:00''])
   \<and> vanilla_DB_stop \<lparr>year = 2024, month = 1, day = 15\<rparr> (Time (hm 8 0))
      \<lparr>db_path = ''arbeitszeit.txt'', db_baseline = timedelta 8 0,
         db_records = [\<lparr>rec_day = \<lparr>year = 2024, month = 1, day = 15\<rparr>,
                         rec_start = Some (hm 9 0), rec_end = None\<rparr>]\<rparr> Map.empty
     = (Inr \<lparr>db_path = ''arbeitszeit.txt'', db_baseline = timedelta 8 0,
             db_records = [\<lparr>rec_day = \<lparr>year = 2024, month = 1, day = 15\<rparr>,
                             rec_start = Some (hm 9 0), rec_end = Some (hm 8 0)\<rparr>]\<rparr>,
        [''arbeitszeit.txt'' \<mapsto> ''Mon 2024-01-15 09:00 08:00''])
   \<and> time_less (hm 8 0) (hm 9 0)
   \<and> Record_init \<lparr>year = 2024, month = 1, day = 15\<rparr> (Some (hm 9 0)) (Some (hm 8 0))
       = Inl ValidationError
   \<and> DB_load ''arbeitszeit.txt'' [''arbeitszeit.txt'' \<mapsto> ''Mon 2024-01-15 09:00 08:00'']
       = Inl ValidationError
   \<and> vanilla_DB_load ''arbeitszeit.txt'' [''arbeitszeit.txt'' \<mapsto> ''Mon 2024-01-15 09:00 08:00'']
       = ([''Start must come before stop!'',
           ''arbeitszeit.txt#L0: Invalid record '' @ [CHR 0x27] @ ''Mon 2024-01-15 09:00 08:00''
             @ [CHR 0x27] @ ''!'',
           ''Edit arbeitszeit.txt to correct the record.''], Inl (SystemExit 1))"
proof -
  have t: "Record_text \<lparr>rec_day = \<lparr>year = 2024, month = 1, day = 15\<rparr>,
             rec_start = Some (hm 9 0), rec_end = Some (hm 8 0)\<rparr> = ''Mon 2024-01-15 09:00 08:00''"
    by code_simp
  have a: "DB_end convert \<lparr>year = 2024, month = 1, day = 15\<rparr> (Time (hm 8 0))
      \<lparr>db_path = ''arbeitszeit.txt'', db_baseline = timedelta 8 0,
         db_records = [\<lparr>rec_day = \<lparr>year = 2024, month = 1, day = 15\<rparr>,
                         rec_start = Some (hm 9 0), rec_end = None\<rparr>]\<rparr> Map.empty
     = (Inr \<lparr>db_path = ''arbeitszeit.txt'', db_baseline = timedelta 8 0,
             db_records = [\<lparr>rec_day = \<lparr>year = 2024, month = 1, day = 15\<rparr>,
                             rec_start = Some (hm 9 0), rec_end = Some (hm 8 0)\<rparr>]\<rparr>,
        [''arbeitszeit.txt'' \<mapsto> ''Mon 2024-01-15 09:00 08:00''])"
    by (simp only: t [symmetric]) (simp add: DB_end_def DB_empty_def DB_last_def DB_save_def)
  have b: "vanilla_DB_stop \<lparr>year = 2024, month = 1, day = 15\<rparr> (Time (hm 8 0))
      \<lparr>db_path = ''arbeitszeit.txt'', db_baseline = timedelta 8 0,
         db_records = [\<lparr>rec_day = \<lparr>year = 2024, month = 1, day = 15\<rparr>,
                         rec_start = Some (hm 9 0), rec_end = None\<rparr>]\<rparr> Map.empty
     = (Inr \<lparr>db_path = ''arbeitszeit.txt'', db_baseline = timedelta 8 0,
             db_records = [\<lparr>rec_day = \<lparr>year = 2024, month = 1, day = 15\<rparr>,
                             rec_start = Some (hm 9 0), rec_end = Some (hm 8 0)\<rparr>]\<rparr>,
        [''arbeitszeit.txt'' \<mapsto> ''Mon 2024-01-15 09:00 08:00''])"
    by (simp only: t [symmetric]) (simp add: vanilla_DB_stop_def DB_empty_def DB_last_def DB_save_def)
  have c: "time_less (hm 8 0) (hm 9 0)"
    by (simp add: time_less_def hm_def)
  have d: "Record_init \<lparr>year = 2024, month = 1, day = 15\<rparr> (Some (hm 9 0)) (Some (hm 8 0))
       = Inl ValidationError"
    using c by (simp add: Record_init_def check_either_start_or_end_def check_start_before_end_def)
  have e: "DB_load ''arbeitszeit.txt'' [''arbeitszeit.txt'' \<mapsto> ''Mon 2024-01-15 09:00 08:00'']
       = Inl ValidationError"
    by code_simp
  have f: "vanilla_DB_load ''arbeitszeit.txt'' [''arbeitszeit.txt'' \<mapsto> ''Mon 2024-01-15 09:00 08:00'']
       = ([''Start must come before stop!'',
           ''arbeitszeit.txt#L0: Invalid record '' @ [CHR 0x27] @ ''Mon 2024-01-15 09:00 08:00''
             @ [CHR 0x27] @ ''!'',
           ''Edit arbeitszeit.txt to correct the record.''], Inl (SystemExit 1))"
    by code_simp
  from a b c d e f show ?thesis by (intro conjI)
qed

subsection \<open>The text of a duration\<close>

text \<open>
  C8. \<^verbatim>\<open>timedelta_to_text\<close> takes the hours from the attribute \<^verbatim>\<open>.seconds\<close>, which leaves the
  days of the duration out: 25 hours are one day and 3600 seconds and come out as
  \<^verbatim>\<open>01:00\<close>, 40 hours as \<^verbatim>\<open>16:00\<close>. Below 24 hours the text is the zero-padded hours and
  minutes, and an absent duration gives \<^verbatim>\<open>--:--\<close>.
\<close>

theorem timedelta_to_text_25_hours:
  "td_days (timedelta 25 0) = 1 \<and> td_seconds (timedelta 25 0) = 3600
   \<and> timedelta_to_text (Some (timedelta 25 0)) = ''01:00''
   \<and> timedelta_to_text (Some (timedelta 40 0)) = ''16:00''
   \<and> timedelta_to_text (Some (timedelta 23 59)) = ''23:59''
   \<and> timedelta_to_text None = ''--:--''"
  by code_simp

subsection \<open>Records from one time text\<close>

text \<open>
  C9. \<^verbatim>\<open>from_end\<close> (\<^verbatim>\<open>from_stop\<close> in \<^verbatim>\<open>vanilla.py\<close>) raises \<^verbatim>\<open>TypeError\<close> for every
  argument: its first statement passes the module-level function \<^verbatim>\<open>start\<close> to \<^verbatim>\<open>re.match\<close>.
  \<^verbatim>\<open>from_start\<close> returns the open record for a valid time text such as \<^verbatim>\<open>17:00\<close>.
\<close>

theorem from_end_TypeError:
  "from_end today x = Inl TypeError \<and> vanilla_from_stop today x = Inl TypeError
   \<and> from_start \<lparr>year = 2024, month = 1, day = 15\<rparr> (Str ''17:00'')
       = Inr \<lparr>rec_day = \<lparr>year = 2024, month = 1, day = 15\<rparr>, rec_start = Some (hm 17 0),
              rec_end = None\<rparr>"
proof -
  have "from_start \<lparr>year = 2024, month = 1, day = 15\<rparr> (Str ''17:00'')
       = Inr \<lparr>rec_day = \<lparr>year = 2024, month = 1, day = 15\<rparr>, rec_start = Some (hm 17 0),
              rec_end = None\<rparr>"
    by code_simp
  then show ?thesis
    by (simp add: from_end_def vanilla_from_stop_def is_time_def vanilla_is_time_def re_match_def
        start_global_def)
qed

subsection \<open>Worked time and delta of a Day and a Week\<close>

lemma Day_worktime_open:
  "r \<in> set (day_records d) \<Longrightarrow> rec_end r = None \<Longrightarrow> Day_worktime d = None"
proof -
  assume r: "r \<in> set (day_records d)" and e: "rec_end r = None"
  from e have "Record_worktime r = None"
    by (simp add: Record_worktime_def split: option.splits)
  with r have "None \<in> set (map Record_worktime (day_records d))"
    by (metis image_eqI list.set_map)
  then show ?thesis
    by (simp add: Day_worktime_def)
qed

lemma Week_worktime_undefined:
  "x \<in> set (week_days w) \<Longrightarrow> Day_worktime x = None \<Longrightarrow> Week_worktime w = None"
proof -
  assume x: "x \<in> set (week_days w)" and n: "Day_worktime x = None"
  then have "None \<in> set (map Day_worktime (week_days w))"
    by (metis image_eqI list.set_map)
  then show ?thesis
    by (simp add: Week_worktime_def)
qed

lemma Day_delta_eq: "Day_delta d = map_option (\<lambda>w. w - day_baseline d) (Day_worktime d)"
  by (simp add: Day_delta_def split: option.splits)

lemma vanilla_Day_delta_eq:
  "vanilla_Day_delta d = map_option (\<lambda>w. w - day_baseline d) (Day_worktime d)"
  by (simp add: vanilla_Day_delta_def split: option.splits)

lemma Day_worktime_example:
  "Day_worktime \<lparr>day_day = D, day_baseline = timedelta 8 0,
      day_records = [\<lparr>rec_day = D, rec_start = Some (hm 9 0), rec_end = Some (hm 17 30)\<rparr>]\<rparr>
   = Some (timedelta 8 30)"
  by (simp add: Day_worktime_def Record_worktime_def sum_timedeltas_def time_micros_def hm_def
      timedelta_def)

lemma duration_texts:
  "timedelta_to_text (Some (timedelta 8 30)) = ''08:30''"
  "signed_timedelta_to_text (Some (timedelta 0 30)) = ''+00:30''"
  by code_simp+

text \<open>
  C5. A Day with the baseline 08:00 and the single record from 09:00 to 17:30 has the worktime
  \<^verbatim>\<open>08:30\<close> and the delta \<^verbatim>\<open>+00:30\<close>; in general the delta is the worktime less the
  baseline, wherever the worktime is defined. A Day that holds a record with no end has
  neither a worktime nor a delta, and a Week that holds a Day with no worktime has no
  worktime, whatever its other Days are.
\<close>

theorem Day_Week_worktime_delta:
  "Day_worktime \<lparr>day_day = D, day_baseline = timedelta 8 0,
      day_records = [\<lparr>rec_day = D, rec_start = Some (hm 9 0), rec_end = Some (hm 17 30)\<rparr>]\<rparr>
     = Some (timedelta 8 30)
   \<and> Day_delta \<lparr>day_day = D, day_baseline = timedelta 8 0,
      day_records = [\<lparr>rec_day = D, rec_start = Some (hm 9 0), rec_end = Some (hm 17 30)\<rparr>]\<rparr>
     = Some (timedelta 0 30)
   \<and> vanilla_Day_delta \<lparr>day_day = D, day_baseline = timedelta 8 0,
      day_records = [\<lparr>rec_day = D, rec_start = Some (hm 9 0), rec_end = Some (hm 17 30)\<rparr>]\<rparr>
     = Some (timedelta 0 30)
   \<and> timedelta_to_text (Some (timedelta 8 30)) = ''08:30''
   \<and> signed_timedelta_to_text (Some (timedelta 0 30)) = ''+00:30''
   \<and> Day_delta d = map_option (\<lambda>w. w - day_baseline d) (Day_worktime d)
   \<and> vanilla_Day_delta d = map_option (\<lambda>w. w - day_baseline d) (Day_worktime d)
   \<and> (\<forall>r\<in>set (day_records d). rec_end r = None \<longrightarrow>
         Day_worktime d = None \<and> Day_delta d = None \<and> vanilla_Day_delta d = None)
   \<and> (\<forall>x\<in>set (week_days w). Day_worktime x = None \<longrightarrow> Week_worktime w = None)"
proof -
  have open_day: "\<forall>r\<in>set (day_records d). rec_end r = None \<longrightarrow>
         Day_worktime d = None \<and> Day_delta d = None \<and> vanilla_Day_delta d = None"
    by (auto simp: Day_delta_eq vanilla_Day_delta_eq dest: Day_worktime_open)
  have week: "\<forall>x\<in>set (week_days w). Day_worktime x = None \<longrightarrow> Week_worktime w = None"
    by (auto dest: Week_worktime_undefined)
  have delta: "Day_delta \<lparr>day_day = D, day_baseline = timedelta 8 0,
      day_records = [\<lparr>rec_day = D, rec_start = Some (hm 9 0), rec_end = Some (hm 17 30)\<rparr>]\<rparr>
     = Some (timedelta 0 30)"
    by (simp only: Day_delta_eq Day_worktime_example) (simp add: timedelta_def)
  have vdelta: "vanilla_Day_delta \<lparr>day_day = D, day_baseline = timedelta 8 0,
      day_records = [\<lparr>rec_day = D, rec_start = Some (hm 9 0), rec_end = Some (hm 17 30)\<rparr>]\<rparr>
     = Some (timedelta 0 30)"
    by (simp only: vanilla_Day_delta_eq Day_worktime_example) (simp add: timedelta_def)
  show ?thesis
    by (intro conjI Day_worktime_example delta vdelta duration_texts Day_delta_eq
        vanilla_Day_delta_eq open_day week)
qed

theorem Day_Week_worktime_delta_witness:
  "Day_worktime \<lparr>day_day = \<lparr>year = 2024, month = 1, day = 16\<rparr>, day_baseline = timedelta 8 0,
      day_records = [\<lparr>rec_day = \<lparr>year = 2024, month = 1, day = 16\<rparr>, rec_start = Some (hm 9 0),
                       rec_end = Some (hm 12 0)\<rparr>,
                     \<lparr>rec_day = \<lparr>year = 2024, month = 1, day = 16\<rparr>, rec_start = Some (hm 13 0),
                       rec_end = None\<rparr>]\<rparr> = None
   \<and> Day_delta \<lparr>day_day = \<lparr>year = 2024, month = 1, day = 16\<rparr>, day_baseline = timedelta 8 0,
      day_records = [\<lparr>rec_day = \<lparr>year = 2024, month = 1, day = 16\<rparr>, rec_start = Some (hm 9 0),
                       rec_end = Some (hm 12 0)\<rparr>,
                     \<lparr>rec_day = \<lparr>year = 2024, month = 1, day = 16\<rparr>, rec_start = Some (hm 13 0),
                       rec_end = None\<rparr>]\<rparr> = None
   \<and> Day_worktime \<lparr>day_day = \<lparr>year = 2024, month = 1, day = 15\<rparr>, day_baseline = timedelta 8 0,
      day_records = [\<lparr>rec_day = \<lparr>year = 2024, month = 1, day = 15\<rparr>, rec_start = Some (hm 9 0),
                       rec_end = Some (hm 17 30)\<rparr>]\<rparr> = Some (timedelta 8 30)
   \<and> Week_worktime \<lparr>week_week = (2024, 3),
      week_days = [\<lparr>day_day = \<lparr>year = 2024, month = 1, day = 15\<rparr>, day_baseline = timedelta 8 0,
          day_records = [\<lparr>rec_day = \<lparr>year = 2024, month = 1, day = 15\<rparr>,
                           rec_start = Some (hm 9 0), rec_end = Some (hm 17 30)\<rparr>]\<rparr>,
        \<lparr>day_day = \<lparr>year = 2024, month = 1, day = 16\<rparr>, day_baseline = timedelta 8 0,
          day_records = [\<lparr>rec_day = \<lparr>year = 2024, month = 1, day = 16\<rparr>, rec_start = Some (hm 9 0),
                       rec_end = Some (hm 12 0)\<rparr>,
                     \<lparr>rec_day = \<lparr>year = 2024, month = 1, day = 16\<rparr>, rec_start = Some (hm 13 0),
                       rec_end = None\<rparr>]\<rparr>]\<rparr> = None"
  using Day_Week_worktime_delta [of "\<lparr>year = 2024, month = 1, day = 15\<rparr>"
      "\<lparr>day_day = \<lparr>year = 2024, month = 1, day = 16\<rparr>, day_baseline = timedelta 8 0,
      day_records = [\<lparr>rec_day = \<lparr>year = 2024, month = 1, day = 16\<rparr>, rec_start = Some (hm 9 0),
                       rec_end = Some (hm 12 0)\<rparr>,
                     \<lparr>rec_day = \<lparr>year = 2024, month = 1, day = 16\<rparr>, rec_start = Some (hm 13 0),
                       rec_end = None\<rparr>]\<rparr>"
      "\<lparr>week_week = (2024, 3),
      week_days = [\<lparr>day_day = \<lparr>year = 2024, month = 1, day = 15\<rparr>, day_baseline = timedelta 8 0,
          day_records = [\<lparr>rec_day = \<lparr>year = 2024, month = 1, day = 15\<rparr>,
                           rec_start = Some (hm 9 0), rec_end = Some (hm 17 30)\<rparr>]\<rparr>,
        \<lparr>day_day = \<lparr>year = 2024, month = 1, day = 16\<rparr>, day_baseline = timedelta 8 0,
          day_records = [\<lparr>rec_day = \<lparr>year = 2024, month = 1, day = 16\<rparr>, rec_start = Some (hm 9 0),
                       rec_end = Some (hm 12 0)\<rparr>,
                     \<lparr>rec_day = \<lparr>year = 2024, month = 1, day = 16\<rparr>, rec_start = Some (hm 13 0),
                       rec_end = None\<rparr>]\<rparr>]\<rparr>"]
  by simp

subsection \<open>Grouping records into Days and Days into Weeks\<close>

lemma first_seen_snoc:
  "first_seen (xs @ [x]) = (if x \<in> set xs then first_seen xs else first_seen xs @ [x])"
  by (simp add: first_seen_def)

lemma set_first_seen: "set (first_seen xs) = set xs"
  by (simp add: first_seen_def)

lemma distinct_first_seen: "distinct (first_seen xs)"
  by (simp add: first_seen_def)

lemma map_of_keyed:
  "map_of (map (\<lambda>k. (k, f k)) ks) k = (if k \<in> set ks then Some (f k) else None)"
  by (induction ks) auto

lemma filter_key_absent: "k \<notin> set (map f xs) \<Longrightarrow> filter (\<lambda>q. f q = k) xs = []"
  by (induction xs) auto

lemma days_loop_inv:
  "days_loop b rs (map (\<lambda>k. (k, \<lparr>day_day = k, day_baseline = b,
        day_records = filter (\<lambda>r. rec_day r = k) ps\<rparr>)) (first_seen (map rec_day ps)))
   = Inr (map (\<lambda>k. (k, \<lparr>day_day = k, day_baseline = b,
        day_records = filter (\<lambda>r. rec_day r = k) (ps @ rs)\<rparr>)) (first_seen (map rec_day (ps @ rs))))"
proof (induction rs arbitrary: ps)
  case Nil
  then show ?case by simp
next
  case (Cons r rs)
  let ?k = "rec_day r"
  let ?day = "\<lambda>qs k. \<lparr>day_day = k, day_baseline = b, day_records = filter (\<lambda>r. rec_day r = k) qs\<rparr>"
  let ?days = "\<lambda>qs. map (\<lambda>k. (k, ?day qs k)) (first_seen (map rec_day qs))"
  have step: "days_loop b (r # rs) (?days ps) = days_loop b rs (?days (ps @ [r]))"
  proof (cases "?k \<in> set (map rec_day ps)")
    case True
    then have look: "map_of (?days ps) ?k = Some (?day ps ?k)"
      by (simp add: map_of_keyed set_first_seen)
    have add: "Day_add_record (?day ps ?k) r = Inr (?day (ps @ [r]) ?k)"
      by (simp add: Day_add_record_def)
    from True have acc: "dict_replace ?k (?day (ps @ [r]) ?k) (?days ps) = ?days (ps @ [r])"
      by (auto simp: dict_replace_def first_seen_snoc)
    show ?thesis
      by (subst days_loop.simps) (simp only: look option.case add sum.case acc)
  next
    case False
    then have look: "map_of (?days ps) ?k = None"
      by (simp add: map_of_keyed set_first_seen)
    from False have acc: "?days ps @ [(?k, Day_from_record r b)] = ?days (ps @ [r])"
      by (auto simp: first_seen_snoc set_first_seen Day_from_record_def filter_key_absent)
    show ?thesis
      by (subst days_loop.simps) (simp only: look option.case acc)
  qed
  show ?case
    using Cons.IH[of "ps @ [r]"] by (simp only: step) simp
qed

lemma DB_days_eq: "DB_days db = Inr (days_by_first_seen (db_baseline db) (db_records db))"
  using days_loop_inv[of "db_baseline db" "db_records db" "[]"]
  by (simp add: DB_days_def days_by_first_seen_def first_seen_def comp_def)

lemma weeks_loop_inv:
  "weeks_loop ds (map (\<lambda>k. (k, \<lparr>week_week = k, week_days = filter (\<lambda>d. Day_week d = k) ps\<rparr>))
        (first_seen (map Day_week ps)))
   = Inr (map (\<lambda>k. (k, \<lparr>week_week = k, week_days = filter (\<lambda>d. Day_week d = k) (ps @ ds)\<rparr>))
        (first_seen (map Day_week (ps @ ds))))"
proof (induction ds arbitrary: ps)
  case Nil
  then show ?case by simp
next
  case (Cons d ds)
  let ?k = "Day_week d"
  let ?week = "\<lambda>qs k. \<lparr>week_week = k, week_days = filter (\<lambda>d. Day_week d = k) qs\<rparr>"
  let ?weeks = "\<lambda>qs. map (\<lambda>k. (k, ?week qs k)) (first_seen (map Day_week qs))"
  have step: "weeks_loop (d # ds) (?weeks ps) = weeks_loop ds (?weeks (ps @ [d]))"
  proof (cases "?k \<in> set (map Day_week ps)")
    case True
    then have look: "map_of (?weeks ps) ?k = Some (?week ps ?k)"
      by (simp add: map_of_keyed set_first_seen)
    have add: "Week_add_day (?week ps ?k) d = Inr (?week (ps @ [d]) ?k)"
      by (simp add: Week_add_day_def)
    from True have acc: "dict_replace ?k (?week (ps @ [d]) ?k) (?weeks ps) = ?weeks (ps @ [d])"
      by (auto simp: dict_replace_def first_seen_snoc)
    show ?thesis
      by (subst weeks_loop.simps) (simp only: look option.case add sum.case acc)
  next
    case False
    then have look: "map_of (?weeks ps) ?k = None"
      by (simp add: map_of_keyed set_first_seen)
    from False have acc: "?weeks ps @ [(?k, Week_from_day d)] = ?weeks (ps @ [d])"
      by (auto simp: first_seen_snoc set_first_seen Week_from_day_def filter_key_absent)
    show ?thesis
      by (subst weeks_loop.simps) (simp only: look option.case acc)
  qed
  show ?case
    using Cons.IH[of "ps @ [d]"] by (simp only: step) simp
qed

lemma DB_weeks_eq:
  "DB_weeks db = Inr (weeks_by_first_seen (days_by_first_seen (db_baseline db) (db_records db)))"
  using weeks_loop_inv[of "days_by_first_seen (db_baseline db) (db_records db)" "[]"]
  by (simp add: DB_weeks_def DB_days_eq weeks_by_first_seen_def first_seen_def comp_def)
lemma weeks_example:
  "weeks_by_first_seen
     [\<lparr>day_day = \<lparr>year = 2024, month = 1, day = 15\<rparr>, day_baseline = timedelta 8 0,
        day_records = [\<lparr>rec_day = \<lparr>year = 2024, month = 1, day = 15\<rparr>,
                         rec_start = Some (hm 9 0), rec_end = Some (hm 12 0)\<rparr>,
                       \<lparr>rec_day = \<lparr>year = 2024, month = 1, day = 15\<rparr>,
                         rec_start = Some (hm 13 0), rec_end = None\<rparr>]\<rparr>,
      \<lparr>day_day = \<lparr>year = 2024, month = 1, day = 10\<rparr>, day_baseline = timedelta 8 0,
        day_records = [\<lparr>rec_day = \<lparr>year = 2024, month = 1, day = 10\<rparr>,
                         rec_start = Some (hm 9 0), rec_end = Some (hm 17 30)\<rparr>]\<rparr>]
   = [\<lparr>week_week = (2024, 3),
        week_days = [\<lparr>day_day = \<lparr>year = 2024, month = 1, day = 15\<rparr>, day_baseline = timedelta 8 0,
           day_records = [\<lparr>rec_day = \<lparr>year = 2024, month = 1, day = 15\<rparr>,
                         rec_start = Some (hm 9 0), rec_end = Some (hm 12 0)\<rparr>,
                       \<lparr>rec_day = \<lparr>year = 2024, month = 1, day = 15\<rparr>,
                         rec_start = Some (hm 13 0), rec_end = None\<rparr>]\<rparr>]\<rparr>,
      \<lparr>week_week = (2024, 2),
        week_days = [\<lparr>day_day = \<lparr>year = 2024, month = 1, day = 10\<rparr>, day_baseline = timedelta 8 0,
           day_records = [\<lparr>rec_day = \<lparr>year = 2024, month = 1, day = 10\<rparr>,
                         rec_start = Some (hm 9 0), rec_end = Some (hm 17 30)\<rparr>]\<rparr>]\<rparr>]"
  by code_simp

text \<open>
  C6. \<open>DB_days\<close> never fails and returns one Day for each date, in the order in which the
  dates are first met in the ledger, each holding the records of its date in their order;
  \<open>DB_weeks\<close> groups these Days by ISO year and week in the same way. Records of the days
  \<open>D1\<close>, \<open>D2\<close>, \<open>D1\<close> with \<open>D1 \<noteq> D2\<close> give the Day of \<open>D1\<close> with the first and the third
  record, then the Day of \<open>D2\<close>.
\<close>

theorem DB_days_weeks_grouping:
  "DB_days db = Inr (days_by_first_seen (db_baseline db) (db_records db))
   \<and> DB_weeks db = Inr (weeks_by_first_seen (days_by_first_seen (db_baseline db) (db_records db)))
   \<and> (D1 \<noteq> D2 \<longrightarrow>
        days_by_first_seen b
          [\<lparr>rec_day = D1, rec_start = s1, rec_end = e1\<rparr>,
           \<lparr>rec_day = D2, rec_start = s2, rec_end = e2\<rparr>,
           \<lparr>rec_day = D1, rec_start = s3, rec_end = e3\<rparr>]
        = [\<lparr>day_day = D1, day_baseline = b,
             day_records = [\<lparr>rec_day = D1, rec_start = s1, rec_end = e1\<rparr>,
                            \<lparr>rec_day = D1, rec_start = s3, rec_end = e3\<rparr>]\<rparr>,
           \<lparr>day_day = D2, day_baseline = b,
             day_records = [\<lparr>rec_day = D2, rec_start = s2, rec_end = e2\<rparr>]\<rparr>])"
  by (auto simp: DB_days_eq DB_weeks_eq days_by_first_seen_def first_seen_def)

theorem DB_days_weeks_grouping_witness:
  "\<lparr>year = 2024, month = 1, day = 15\<rparr> \<noteq> \<lparr>year = 2024, month = 1, day = 10\<rparr>
   \<and> DB_days \<lparr>db_path = ''arbeitszeit.txt'', db_baseline = timedelta 8 0,
        db_records = [\<lparr>rec_day = \<lparr>year = 2024, month = 1, day = 15\<rparr>,
                         rec_start = Some (hm 9 0), rec_end = Some (hm 12 0)\<rparr>,
                      \<lparr>rec_day = \<lparr>year = 2024, month = 1, day = 10\<rparr>,
                         rec_start = Some (hm 9 0), rec_end = Some (hm 17 30)\<rparr>,
                      \<lparr>rec_day = \<lparr>year = 2024, month = 1, day = 15\<rparr>,
                         rec_start = Some (hm 13 0), rec_end = None\<rparr>]\<rparr>
     = Inr [\<lparr>day_day = \<lparr>year = 2024, month = 1, day = 15\<rparr>, day_baseline = timedelta 8 0,
        day_records = [\<lparr>rec_day = \<lparr>year = 2024, month = 1, day = 15\<rparr>,
                         rec_start = Some (hm 9 0), rec_end = Some (hm 12 0)\<rparr>,
                       \<lparr>rec_day = \<lparr>year = 2024, month = 1, day = 15\<rparr>,
                         rec_start = Some (hm 13 0), rec_end = None\<rparr>]\<rparr>,
      \<lparr>day_day = \<lparr>year = 2024, month = 1, day = 10\<rparr>, day_baseline = timedelta 8 0,
        day_records = [\<lparr>rec_day = \<lparr>year = 2024, month = 1, day = 10\<rparr>,
                         rec_start = Some (hm 9 0), rec_end = Some (hm 17 30)\<rparr>]\<rparr>]
   \<and> DB_weeks \<lparr>db_path = ''arbeitszeit.txt'', db_baseline = timedelta 8 0,
        db_records = [\<lparr>rec_day = \<lparr>year = 2024, month = 1, day = 15\<rparr>,
                         rec_start = Some (hm 9 0), rec_end = Some (hm 12 0)\<rparr>,
                      \<lparr>rec_day = \<lparr>year = 2024, month = 1, day = 10\<rparr>,
                         rec_start = Some (hm 9 0), rec_end = Some (hm 17 30)\<rparr>,
                      \<lparr>rec_day = \<lparr>year = 2024, month = 1, day = 15\<rparr>,
                         rec_start = Some (hm 13 0), rec_end = None\<rparr>]\<rparr>
     = Inr [\<lparr>week_week = (2024, 3),
        week_days = [\<lparr>day_day = \<lparr>year = 2024, month = 1, day = 15\<rparr>, day_baseline = timedelta 8 0,
           day_records = [\<lparr>rec_day = \<lparr>year = 2024, month = 1, day = 15\<rparr>,
                         rec_start = Some (hm 9 0), rec_end = Some (hm 12 0)\<rparr>,
                       \<lparr>rec_day = \<lparr>year = 2024, month = 1, day = 15\<rparr>,
                         rec_start = Some (hm 13 0), rec_end = None\<rparr>]\<rparr>]\<rparr>,
      \<lparr>week_week = (2024, 2),
        week_days = [\<lparr>day_day = \<lparr>year = 2024, month = 1, day = 10\<rparr>, day_baseline = timedelta 8 0,
           day_records = [\<lparr>rec_day = \<lparr>year = 2024, month = 1, day = 10\<rparr>,
                         rec_start = Some (hm 9 0), rec_end = Some (hm 17 30)\<rparr>]\<rparr>]\<rparr>]"
proof -
  have ne: "\<lparr>year = 2024, month = 1, day = 15\<rparr> \<noteq> \<lparr>year = 2024, month = 1, day = 10\<rparr>"
    by simp
  note g = DB_days_weeks_grouping [of
      "\<lparr>db_path = ''arbeitszeit.txt'', db_baseline = timedelta 8 0,
        db_records = [\<lparr>rec_day = \<lparr>year = 2024, month = 1, day = 15\<rparr>,
                         rec_start = Some (hm 9 0), rec_end = Some (hm 12 0)\<rparr>,
                      \<lparr>rec_day = \<lparr>year = 2024, month = 1, day = 10\<rparr>,
                         rec_start = Some (hm 9 0), rec_end = Some (hm 17 30)\<rparr>,
                      \<lparr>rec_day = \<lparr>year = 2024, month = 1, day = 15\<rparr>,
                         rec_start = Some (hm 13 0), rec_end = None\<rparr>]\<rparr>"
      "\<lparr>year = 2024, month = 1, day = 15\<rparr>" "\<lparr>year = 2024, month = 1, day = 10\<rparr>"
      "timedelta 8 0" "Some (hm 9 0)" "Some (hm 12 0)" "Some (hm 9 0)" "Some (hm 17 30)"
      "Some (hm 13 0)" None]
  from g ne have days: "days_by_first_seen (timedelta 8 0)
          [\<lparr>rec_day = \<lparr>year = 2024, month = 1, day = 15\<rparr>,
                         rec_start = Some (hm 9 0), rec_end = Some (hm 12 0)\<rparr>,
                      \<lparr>rec_day = \<lparr>year = 2024, month = 1, day = 10\<rparr>,
                         rec_start = Some (hm 9 0), rec_end = Some (hm 17 30)\<rparr>,
                      \<lparr>rec_day = \<lparr>year = 2024, month = 1, day = 15\<rparr>,
                         rec_start = Some (hm 13 0), rec_end = None\<rparr>]
      = [\<lparr>day_day = \<lparr>year = 2024, month = 1, day = 15\<rparr>, day_baseline = timedelta 8 0,
        day_records = [\<lparr>rec_day = \<lparr>year = 2024, month = 1, day = 15\<rparr>,
                         rec_start = Some (hm 9 0), rec_end = Some (hm 12 0)\<rparr>,
                       \<lparr>rec_day = \<lparr>year = 2024, month = 1, day = 15\<rparr>,
                         rec_start = Some (hm 13 0), rec_end = None\<rparr>]\<rparr>,
      \<lparr>day_day = \<lparr>year = 2024, month = 1, day = 10\<rparr>, day_baseline = timedelta 8 0,
        day_records = [\<lparr>rec_day = \<lparr>year = 2024, month = 1, day = 10\<rparr>,
                         rec_start = Some (hm 9 0), rec_end = Some (hm 17 30)\<rparr>]\<rparr>]"
    by blast
  from g have d: "DB_days \<lparr>db_path = ''arbeitszeit.txt'', db_baseline = timedelta 8 0,
        db_records = [\<lparr>rec_day = \<lparr>year = 2024, month = 1, day = 15\<rparr>,
                         rec_start = Some (hm 9 0), rec_end = Some (hm 12 0)\<rparr>,
                      \<lparr>rec_day = \<lparr>year = 2024, month = 1, day = 10\<rparr>,
                         rec_start = Some (hm 9 0), rec_end = Some (hm 17 30)\<rparr>,
                      \<lparr>rec_day = \<lparr>year = 2024, month = 1, day = 15\<rparr>,
                         rec_start = Some (hm 13 0), rec_end = None\<rparr>]\<rparr>
     = Inr (days_by_first_seen (timedelta 8 0)
          [\<lparr>rec_day = \<lparr>year = 2024, month = 1, day = 15\<rparr>,
                         rec_start = Some (hm 9 0), rec_end = Some (hm 12 0)\<rparr>,
                      \<lparr>rec_day = \<lparr>year = 2024, month = 1, day = 10\<rparr>,
                         rec_start = Some (hm 9 0), rec_end = Some (hm 17 30)\<rparr>,
                      \<lparr>rec_day = \<lparr>year = 2024, month = 1, day = 15\<rparr>,
                         rec_start = Some (hm 13 0), rec_end = None\<rparr>])"
    by simp
  from g have w: "DB_weeks \<lparr>db_path = ''arbeitszeit.txt'', db_baseline = timedelta 8 0,
        db_records = [\<lparr>rec_day = \<lparr>year = 2024, month = 1, day = 15\<rparr>,
                         rec_start = Some (hm 9 0), rec_end = Some (hm 12 0)\<rparr>,
                      \<lparr>rec_day = \<lparr>year = 2024, month = 1, day = 10\<rparr>,
                         rec_start = Some (hm 9 0), rec_end = Some (hm 17 30)\<rparr>,
                      \<lparr>rec_day = \<lparr>year = 2024, month = 1, day = 15\<rparr>,
                         rec_start = Some (hm 13 0), rec_end = None\<rparr>]\<rparr>
     = Inr (weeks_by_first_seen (days_by_first_seen (timedelta 8 0)
          [\<lparr>rec_day = \<lparr>year = 2024, month = 1, day = 15\<rparr>,
                         rec_start = Some (hm 9 0), rec_end = Some (hm 12 0)\<rparr>,
                      \<lparr>rec_day = \<lparr>year = 2024, month = 1, day = 10\<rparr>,
                         rec_start = Some (hm 9 0), rec_end = Some (hm 17 30)\<rparr>,
                      \<lparr>rec_day = \<lparr>year = 2024, month = 1, day = 15\<rparr>,
                         rec_start = Some (hm 13 0), rec_end = None\<rparr>]))"
    by simp
  show ?thesis
    by (intro conjI, rule ne) (simp only: d w days weeks_example)+
qed

subsection \<open>Loading a ledger with a line that does not parse\<close>

lemma load_records_ok:
  "\<forall>l\<in>set ls. \<exists>r. from_text l = Inr r \<Longrightarrow>
   load_records ls acc = Inr (acc @ map (\<lambda>l. projr (from_text l)) ls)"
  by (induction ls arbitrary: acc) auto

lemma load_records_fail:
  "\<forall>l\<in>set ok. \<exists>r. from_text l = Inr r \<Longrightarrow> from_text bad = Inl e \<Longrightarrow>
   load_records (ok @ bad # rest) acc = Inl e"
  by (induction ok arbitrary: acc) auto

lemma index_first_bad:
  "bad \<notin> set ok \<Longrightarrow> index (ok @ bad # rest) bad = length ok"
  by (induction ok) auto

lemma vanilla_load_records_ok:
  "\<forall>l\<in>set ls. \<exists>r. vanilla_from_text l = Inr r \<Longrightarrow>
   vanilla_load_records path lines ls acc = ([], Inr (acc @ map (\<lambda>l. projr (vanilla_from_text l)) ls))"
  by (induction ls arbitrary: acc) auto

lemma vanilla_load_records_fail:
  "\<forall>l\<in>set ok. \<exists>r. vanilla_from_text l = Inr r \<Longrightarrow> vanilla_from_text bad = Inl e \<Longrightarrow>
   vanilla_load_records path lines (ok @ bad # rest) acc =
     (case e of
        AssertionError msg \<Rightarrow>
          ([msg,
            path @ ''#L'' @ str_nat (index lines bad) @ '': Invalid record '' @ [CHR 0x27]
              @ bad @ [CHR 0x27] @ ''!'',
            ''Edit '' @ path @ '' to correct the record.''],
           Inl (SystemExit 1))
      | _ \<Rightarrow> ([], Inl e))"
proof (induction ok arbitrary: acc)
  case Nil
  then show ?case by (cases e) simp_all
next
  case (Cons l ok)
  from Cons.prems(1) obtain r where r: "vanilla_from_text l = Inr r" by auto
  from Cons.prems(1) have ok: "\<forall>l\<in>set ok. \<exists>r. vanilla_from_text l = Inr r" by simp
  show ?case
    using Cons.IH[OF ok Cons.prems(2), of "acc @ [r]"] by (simp add: r)
qed

lemma from_text_not_record:
  "is_record (Str l) = Inr False \<Longrightarrow> from_text l = Inl (AssertionError [])"
  by (simp add: from_text_def)

lemma vanilla_from_text_not_record:
  "vanilla_is_record (Str l) = Inr False \<Longrightarrow> vanilla_from_text l = Inl (AssertionError [])"
  by (simp add: vanilla_from_text_def)

lemma file_lines_example:
  "file_lines (''Mon 2024-01-15 09:00 17:30'' @ [CHR 0x0A] @ ''junk'')
   = [''Mon 2024-01-15 09:00 17:30''] @ ''junk'' # []"
  by code_simp

lemma from_text_example:
  "from_text ''Mon 2024-01-15 09:00 17:30''
   = Inr \<lparr>rec_day = \<lparr>year = 2024, month = 1, day = 15\<rparr>, rec_start = Some (hm 9 0),
          rec_end = Some (hm 17 30)\<rparr>"
  by code_simp

lemma vanilla_from_text_example:
  "vanilla_from_text ''Mon 2024-01-15 09:00 17:30''
   = Inr \<lparr>rec_day = \<lparr>year = 2024, month = 1, day = 15\<rparr>, rec_start = Some (hm 9 0),
          rec_end = Some (hm 17 30)\<rparr>"
  by code_simp

lemma from_text_junk: "from_text ''junk'' = Inl (AssertionError [])"
  by code_simp

lemma vanilla_from_text_junk: "vanilla_from_text ''junk'' = Inl (AssertionError [])"
  by code_simp

text \<open>
  What \<^verbatim>\<open>load\<close> does when a line does not parse. Let the lines of the file be
  \<open>ok @ bad # rest\<close>, where every line of \<open>ok\<close> parses and \<open>bad\<close> is the first that does not.
  Then \<^verbatim>\<open>load\<close> returns no records. In \<^verbatim>\<open>main.py\<close> the exception of \<^verbatim>\<open>from_text\<close> on \<open>bad\<close>
  leaves \<^verbatim>\<open>load\<close> unchanged (a line that \<^verbatim>\<open>is_record\<close> refuses gives an \<^verbatim>\<open>AssertionError\<close>
  without a message), and nothing is printed. In \<^verbatim>\<open>vanilla.py\<close> an \<^verbatim>\<open>AssertionError\<close> is
  caught: \<^verbatim>\<open>load\<close> prints its message, the path with \<^verbatim>\<open>#L\<close> and the 0-based index of \<open>bad\<close>,
  and a hint, and ends in \<^verbatim>\<open>exit(1)\<close>; a \<^verbatim>\<open>ValueError\<close> leaves \<^verbatim>\<open>load\<close> unchanged with
  nothing printed.
\<close>

theorem DB_load_all_or_nothing:
  assumes "fs path = Some content" and "file_lines content = ok @ bad # rest"
  shows "((\<forall>l\<in>set ok. \<exists>r. from_text l = Inr r) \<and> from_text bad = Inl e \<longrightarrow>
            DB_load path fs = Inl e)
       \<and> (is_record (Str bad) = Inr False \<longrightarrow> from_text bad = Inl (AssertionError []))
       \<and> ((\<forall>l\<in>set ok. \<exists>r. vanilla_from_text l = Inr r) \<and> vanilla_from_text bad = Inl (AssertionError msg) \<longrightarrow>
            vanilla_DB_load path fs =
              ([msg,
                path @ ''#L'' @ str_nat (length ok) @ '': Invalid record '' @ [CHR 0x27]
                  @ bad @ [CHR 0x27] @ ''!'',
                ''Edit '' @ path @ '' to correct the record.''],
               Inl (SystemExit 1)))
       \<and> (vanilla_is_record (Str bad) = Inr False \<longrightarrow> vanilla_from_text bad = Inl (AssertionError []))
       \<and> ((\<forall>l\<in>set ok. \<exists>r. vanilla_from_text l = Inr r) \<and> vanilla_from_text bad = Inl ValueError \<longrightarrow>
            vanilla_DB_load path fs = ([], Inl ValueError))"
proof -
  have main: "(\<forall>l\<in>set ok. \<exists>r. from_text l = Inr r) \<and> from_text bad = Inl e \<longrightarrow> DB_load path fs = Inl e"
    using assms by (auto simp: DB_load_def load_records_fail)
  have van: "vanilla_DB_load path fs =
              ([msg,
                path @ ''#L'' @ str_nat (length ok) @ '': Invalid record '' @ [CHR 0x27]
                  @ bad @ [CHR 0x27] @ ''!'',
                ''Edit '' @ path @ '' to correct the record.''],
               Inl (SystemExit 1))"
    if ok: "\<forall>l\<in>set ok. \<exists>r. vanilla_from_text l = Inr r"
      and bad: "vanilla_from_text bad = Inl (AssertionError msg)"
  proof -
    from ok bad have "bad \<notin> set ok" by auto
    then have "index (ok @ bad # rest) bad = length ok" by (rule index_first_bad)
    then show ?thesis
      using assms vanilla_load_records_fail[OF ok bad, of path "ok @ bad # rest" rest "[]"]
      by (simp add: vanilla_DB_load_def)
  qed
  have van2: "vanilla_DB_load path fs = ([], Inl ValueError)"
    if ok: "\<forall>l\<in>set ok. \<exists>r. vanilla_from_text l = Inr r"
      and bad: "vanilla_from_text bad = Inl ValueError"
    using assms vanilla_load_records_fail[OF ok bad, of path "ok @ bad # rest" rest "[]"]
    by (simp add: vanilla_DB_load_def)
  show ?thesis
    using main van van2 by (simp add: from_text_not_record vanilla_from_text_not_record)
qed

theorem DB_load_all_or_nothing_witness:
  "DB_load ''arbeitszeit.txt''
     [''arbeitszeit.txt'' \<mapsto> ''Mon 2024-01-15 09:00 17:30'' @ [CHR 0x0A] @ ''junk'']
     = Inl (AssertionError [])
   \<and> vanilla_DB_load ''arbeitszeit.txt''
     [''arbeitszeit.txt'' \<mapsto> ''Mon 2024-01-15 09:00 17:30'' @ [CHR 0x0A] @ ''junk'']
     = ([[], ''arbeitszeit.txt#L1: Invalid record '' @ [CHR 0x27] @ ''junk'' @ [CHR 0x27] @ ''!'',
         ''Edit arbeitszeit.txt to correct the record.''], Inl (SystemExit 1))"
proof -
  have fs: "[''arbeitszeit.txt'' \<mapsto> ''Mon 2024-01-15 09:00 17:30'' @ [CHR 0x0A] @ ''junk'']
      ''arbeitszeit.txt'' = Some (''Mon 2024-01-15 09:00 17:30'' @ [CHR 0x0A] @ ''junk'')"
    by simp
  note t = DB_load_all_or_nothing [where fs = "[''arbeitszeit.txt'' \<mapsto>
        ''Mon 2024-01-15 09:00 17:30'' @ [CHR 0x0A] @ ''junk'']" and path = "''arbeitszeit.txt''"
      and e = "AssertionError []" and msg = "[]", OF fs file_lines_example]
  have ok1: "\<forall>l\<in>set [''Mon 2024-01-15 09:00 17:30'']. \<exists>r. from_text l = Inr r"
    by (simp only: list.set ball_simps from_text_example) blast
  have ok2: "\<forall>l\<in>set [''Mon 2024-01-15 09:00 17:30'']. \<exists>r. vanilla_from_text l = Inr r"
    by (simp only: list.set ball_simps vanilla_from_text_example) blast
  from t ok1 from_text_junk have a: "DB_load ''arbeitszeit.txt''
     [''arbeitszeit.txt'' \<mapsto> ''Mon 2024-01-15 09:00 17:30'' @ [CHR 0x0A] @ ''junk'']
     = Inl (AssertionError [])"
    by blast
  have strs: "''arbeitszeit.txt'' @ ''#L'' @ str_nat (length [''Mon 2024-01-15 09:00 17:30''])
      @ '': Invalid record '' @ [CHR 0x27] @ ''junk'' @ [CHR 0x27] @ ''!''
      = ''arbeitszeit.txt#L1: Invalid record '' @ [CHR 0x27] @ ''junk'' @ [CHR 0x27] @ ''!''"
    "''Edit '' @ ''arbeitszeit.txt'' @ '' to correct the record.''
      = ''Edit arbeitszeit.txt to correct the record.''"
    by code_simp+
  from t ok2 vanilla_from_text_junk have b: "vanilla_DB_load ''arbeitszeit.txt''
     [''arbeitszeit.txt'' \<mapsto> ''Mon 2024-01-15 09:00 17:30'' @ [CHR 0x0A] @ ''junk'']
     = ([[], ''arbeitszeit.txt#L1: Invalid record '' @ [CHR 0x27] @ ''junk'' @ [CHR 0x27] @ ''!'',
         ''Edit arbeitszeit.txt to correct the record.''], Inl (SystemExit 1))"
    unfolding strs by blast
  from a b show ?thesis by (rule conjI)
qed

text \<open>
  C4. \<^verbatim>\<open>load\<close> of \<^verbatim>\<open>main.py\<close> does not say which line of which file failed. Its handler
  holds the \<^verbatim>\<open>print\<close> that names the path and the index of the line, as \<^verbatim>\<open>vanilla.py\<close> prints
  them, but below a bare \<^verbatim>\<open>raise\<close>, which it never passes. So a file whose only line is
  \<^verbatim>\<open>junk\<close> and a differently named file with \<^verbatim>\<open>junk\<close> as its second line raise the same
  exception, an \<^verbatim>\<open>AssertionError\<close> with no message. \<^verbatim>\<open>load\<close> of \<^verbatim>\<open>vanilla.py\<close> names the file
  and the line, but on the output: it prints three lines and ends the process with
  \<^verbatim>\<open>exit(1)\<close>.
\<close>

theorem DB_load_counterexample:
  "DB_load ''a.txt'' [''a.txt'' \<mapsto> ''junk''] = Inl (AssertionError [])
   \<and> DB_load ''b.txt'' [''b.txt'' \<mapsto> ''Mon 2024-01-15 09:00 17:30'' @ [CHR 0x0A] @ ''junk'']
       = Inl (AssertionError [])
   \<and> vanilla_DB_load ''a.txt'' [''a.txt'' \<mapsto> ''junk'']
       = ([[], ''a.txt#L0: Invalid record '' @ [CHR 0x27] @ ''junk'' @ [CHR 0x27] @ ''!'',
           ''Edit a.txt to correct the record.''], Inl (SystemExit 1))"
  by code_simp

end
